theory Spec2Isabelle
  imports Main
begin

section \<open>The workspace repository of \<open>sqlstore/workspaces.go\<close>\<close>

text \<open>
  The Go file builds SQL statements with a query builder and hands them to a relational
  engine. The embedding has two layers.

  \<^item> The \<^emph>\<open>repository\<close> layer is the Go code itself: a function of the file is a
    definition of the same name, which builds the statement from the same column lists
    and the same SQL text as the source, runs it, and returns Go's pair of a result and
    an error. \<open>GetWorkspaceCount\<close>, about which nothing is stated below, is left out.
  \<^item> The \<^emph>\<open>engine\<close> layer stands for the collaborators that are not part of the file: the
    database (reading the SQL text the code wrote, upsert, join, grouping), the
    \<open>database/sql\<close> row scanner, the logger. It covers the SQL fragment that this file
    issues and nothing more.
\<close>

subsection \<open>Values and errors\<close>

text \<open>
  A member of a JSON object as the engine's \<open>->>\<close> operator sees it: a scalar, or a nested
  array or object kept as its text.
\<close>

datatype jscalar = JNull | JBool bool | JNum int | JStr string | JNested string

text \<open>
  A value in a table cell or bound to a statement. \<open>SJson\<close> is the content of a JSON-typed
  column that the engine looks into (its top-level members); JSON that is written and read
  back as text is an \<open>SStr\<close>.
\<close>

datatype sqlval = SNull | SInt int | SStr string | SJson "(string \<times> jscalar) list"

text \<open>
  Go errors. \<open>ErrorString\<close> is \<open>errors.New\<close>, \<open>Wrapped\<close> is \<open>fmt.Errorf\<close> with \<open>%w\<close>,
  \<open>ErrNoRows\<close> is \<open>sql.ErrNoRows\<close>; the others are raised by the engine, the scanner and
  the JSON codec.
\<close>

datatype error =
    ErrorString string
  | Wrapped string error
  | ErrNoRows
  | SyntaxError string
  | NoSuchTable string
  | DuplicateKey string
  | BadStatement string
  | ScanError string
  | JSONError string
  | ConnectionError string

definition errUnsupportedDatabaseError :: error where
  "errUnsupportedDatabaseError =
     ErrorString ''method is unsupported on current database. Supported databases are - MySQL and PostgreSQL''"

text \<open>
  The two discriminators are declared elsewhere in the package; they are the names of the
  database drivers.
\<close>

definition mysqlDBType :: string where
  "mysqlDBType = ''mysql''"

definition postgresDBType :: string where
  "postgresDBType = ''postgres''"

subsection \<open>Engine: reading SQL text\<close>

datatype token = TWord string | TLit string | TSym string

definition is_space :: "char \<Rightarrow> bool" where
  "is_space c = (c = CHR '' '' \<or> c = CHR 0x0A \<or> c = CHR 0x09 \<or> c = CHR 0x0D)"

definition is_word_char :: "char \<Rightarrow> bool" where
  "is_word_char c =
     (let n = (of_char c :: nat)
      in (65 \<le> n \<and> n \<le> 90) \<or> (97 \<le> n \<and> n \<le> 122) \<or> (48 \<le> n \<and> n \<le> 57)
         \<or> c = CHR ''_'' \<or> c = CHR ''.'')"

definition is_op_char :: "char \<Rightarrow> bool" where
  "is_op_char c = (c = CHR ''-'' \<or> c = CHR ''>'' \<or> c = CHR ''<'' \<or> c = CHR ''='' \<or> c = CHR ''!'')"

definition quote :: char where
  "quote = CHR 0x27"

datatype lex_mode = Idle | InWord string | InOp string | InLit string

text \<open>
  The lexer: words (letters, digits, underscore, dot), literals between single quotes,
  operators made of \<open>- > < = !\<close>, and every other character as a symbol of its own. A
  literal that is not closed is a lexical error.
\<close>

fun start_token :: "char \<Rightarrow> lex_mode + token" where
  "start_token c =
     (if c = quote then Inl (InLit [])
      else if is_word_char c then Inl (InWord [c])
      else if is_op_char c then Inl (InOp [c])
      else Inr (TSym [c]))"

fun lexer :: "lex_mode \<Rightarrow> string \<Rightarrow> token list option" where
  "lexer Idle [] = Some []"
| "lexer (InWord w) [] = Some [TWord w]"
| "lexer (InOp p) [] = Some [TSym p]"
| "lexer (InLit l) [] = None"
| "lexer Idle (c # cs) =
     (if is_space c then lexer Idle cs
      else case start_token c of
             Inl m \<Rightarrow> lexer m cs
           | Inr t \<Rightarrow> map_option ((#) t) (lexer Idle cs))"
| "lexer (InWord w) (c # cs) =
     (if is_word_char c then lexer (InWord (w @ [c])) cs
      else map_option ((#) (TWord w))
             (if is_space c then lexer Idle cs
              else case start_token c of
                     Inl m \<Rightarrow> lexer m cs
                   | Inr t \<Rightarrow> map_option ((#) t) (lexer Idle cs)))"
| "lexer (InOp p) (c # cs) =
     (if is_op_char c then lexer (InOp (p @ [c])) cs
      else map_option ((#) (TSym p))
             (if is_space c then lexer Idle cs
              else case start_token c of
                     Inl m \<Rightarrow> lexer m cs
                   | Inr t \<Rightarrow> map_option ((#) t) (lexer Idle cs)))"
| "lexer (InLit l) (c # cs) =
     (if c = quote then map_option ((#) (TLit l)) (lexer Idle cs)
      else lexer (InLit (l @ [c])) cs)"

definition tokens :: "string \<Rightarrow> token list option" where
  "tokens s = lexer Idle s"

text \<open>Identifiers are compared without regard to case.\<close>

definition lower_char :: "char \<Rightarrow> char" where
  "lower_char c =
     (let n = (of_char c :: nat) in if 65 \<le> n \<and> n \<le> 90 then char_of (n + 32) else c)"

definition lower :: "string \<Rightarrow> string" where
  "lower s = map lower_char s"

fun split_on :: "'a \<Rightarrow> 'a list \<Rightarrow> 'a list list" where
  "split_on s [] = [[]]"
| "split_on s (x # xs) =
     (case split_on s xs of
        [] \<Rightarrow> (if x = s then [[], []] else [[x]])
      | g # gs \<Rightarrow> (if x = s then [] # g # gs else (x # g) # gs))"

text \<open>
  Conditions of a join: a conjunction of comparisons between column references, literals
  and \<open>column ->> 'key'\<close> (the text of a member of a JSON column).
\<close>

datatype operand = Col string | Lit string | JsonText string string

datatype atom = CmpEq operand operand | CmpLike operand operand

fun parse_operand :: "token list \<Rightarrow> (operand \<times> token list) option" where
  "parse_operand (TWord c # TSym p # TLit k # ts) =
     (if p = ''->>'' then Some (JsonText c k, ts) else Some (Col c, TSym p # TLit k # ts))"
| "parse_operand (TWord c # ts) = Some (Col c, ts)"
| "parse_operand (TLit l # ts) = Some (Lit l, ts)"
| "parse_operand _ = None"

definition parse_atom :: "token list \<Rightarrow> atom option" where
  "parse_atom ts =
     (case parse_operand ts of
        None \<Rightarrow> None
      | Some (l, []) \<Rightarrow> None
      | Some (l, opr # rest) \<Rightarrow>
          (case parse_operand rest of
             Some (r, []) \<Rightarrow>
               (if opr = TSym ''='' then Some (CmpEq l r)
                else if opr = TWord ''LIKE'' then Some (CmpLike l r)
                else None)
           | _ \<Rightarrow> None))"

definition parse_cond :: "token list \<Rightarrow> atom list option" where
  "parse_cond ts = those (map parse_atom (split_on (TWord ''AND'') ts))"

text \<open>The text of a join: \<open>table ON condition\<close>.\<close>

definition parse_join :: "string \<Rightarrow> (string \<times> atom list) option" where
  "parse_join s =
     (case tokens s of
        Some (TWord t # TWord k # ts) \<Rightarrow>
          (if k = ''ON'' then map_option (Pair (lower t)) (parse_cond ts) else None)
      | _ \<Rightarrow> None)"

text \<open>
  An expression of a select list: a column, \<open>COUNT(column)\<close> or
  \<open>COALESCE(column, 'literal')\<close>.
\<close>

datatype sel_expr = SelCol string | SelCount string | SelCoalesce string string

fun parse_sel_tokens :: "token list \<Rightarrow> sel_expr option" where
  "parse_sel_tokens [TWord c] = Some (SelCol c)"
| "parse_sel_tokens [TWord f, TSym l, TWord c, TSym r] =
     (if f = ''COUNT'' \<and> l = ''('' \<and> r = '')'' then Some (SelCount c) else None)"
| "parse_sel_tokens [TWord f, TSym l, TWord c, TSym m, TLit d, TSym r] =
     (if f = ''COALESCE'' \<and> l = ''('' \<and> m = '','' \<and> r = '')''
      then Some (SelCoalesce c d) else None)"
| "parse_sel_tokens _ = None"

definition parse_sel_expr :: "string \<Rightarrow> sel_expr option" where
  "parse_sel_expr s = (case tokens s of None \<Rightarrow> None | Some ts \<Rightarrow> parse_sel_tokens ts)"

text \<open>
  The conflict clause after an insert. MySQL reads
  \<open>ON DUPLICATE KEY UPDATE c = ?, ...\<close>, every other engine reads
  \<open>ON CONFLICT (k) DO UPDATE SET c = EXCLUDED.d, ...\<close>; each rejects the other's form.
\<close>

datatype conflict_clause =
    NoClause
  | OnDuplicateKeyUpdate "string list"
  | OnConflictDoUpdate string "(string \<times> string) list"

fun parse_assign_placeholder :: "token list \<Rightarrow> string option" where
  "parse_assign_placeholder [TWord c, TSym e, TSym q] =
     (if e = ''='' \<and> q = ''?'' then Some (lower c) else None)"
| "parse_assign_placeholder _ = None"

fun parse_assign_excluded :: "token list \<Rightarrow> (string \<times> string) option" where
  "parse_assign_excluded [TWord c, TSym e, TWord x] =
     (if e = ''='' \<and> take 9 (lower x) = ''excluded.'' \<and> 9 < length x
      then Some (lower c, drop 9 (lower x)) else None)"
| "parse_assign_excluded _ = None"

definition parse_suffix_mysql :: "token list \<Rightarrow> conflict_clause option" where
  "parse_suffix_mysql ts =
     (if take 4 ts = [TWord ''ON'', TWord ''DUPLICATE'', TWord ''KEY'', TWord ''UPDATE'']
      then map_option OnDuplicateKeyUpdate
             (those (map parse_assign_placeholder (split_on (TSym '','') (drop 4 ts))))
      else None)"

definition parse_suffix_standard :: "token list \<Rightarrow> conflict_clause option" where
  "parse_suffix_standard ts =
     (case drop 3 ts of
        TWord k # rest \<Rightarrow>
          (if take 3 ts = [TWord ''ON'', TWord ''CONFLICT'', TSym ''('']
              \<and> take 4 rest = [TSym '')'', TWord ''DO'', TWord ''UPDATE'', TWord ''SET'']
           then map_option (OnConflictDoUpdate (lower k))
                  (those (map parse_assign_excluded (split_on (TSym '','') (drop 4 rest))))
           else None)
      | _ \<Rightarrow> None)"

definition parse_suffix :: "string \<Rightarrow> string \<Rightarrow> conflict_clause option" where
  "parse_suffix dbt s =
     (case tokens s of
        None \<Rightarrow> None
      | Some [] \<Rightarrow> Some NoClause
      | Some ts \<Rightarrow> (if dbt = mysqlDBType then parse_suffix_mysql ts else parse_suffix_standard ts))"

fun placeholders :: "conflict_clause \<Rightarrow> nat" where
  "placeholders (OnDuplicateKeyUpdate cs) = length cs"
| "placeholders _ = 0"

subsection \<open>Engine: tables and statements\<close>

text \<open>
  A row gives every column name (in lower case) its value; a column that was never written
  is null. A table is its rows and, when it has one, the column of its primary key.
\<close>

type_synonym row = "string \<Rightarrow> sqlval"

record table =
  pkey :: "string option"
  trows :: "row list"

text \<open>
  The statements the query builder produces, with the SQL text exactly as the code passes
  it: an insert (\<open>Insert/Columns/Values/Suffix\<close>) and a select
  (\<open>Select/From/LeftJoin/Join/Where/GroupBy\<close>; \<open>sel_where\<close> is the \<open>sq.Eq\<close> map).
\<close>

record insert_stmt =
  ins_into :: string
  ins_columns :: "string list"
  ins_values :: "sqlval list"
  ins_suffix :: string
  ins_suffix_args :: "sqlval list"

datatype join_kind = InnerJoin | LeftJoin

record select_stmt =
  sel_columns :: "string list"
  sel_from :: string
  sel_joins :: "(join_kind \<times> string) list"
  sel_where :: "(string \<times> sqlval) list"
  sel_group_by :: "string list"

datatype statement = StInsert insert_stmt | StSelect select_stmt

text \<open>
  What the repository works on: the tables of the database, the statements sent to it so
  far, the number of row sets that are open, the logger's error records, and the failure
  (if any) with which the connection answers every statement.
\<close>

record world =
  tables :: "string \<rightharpoonup> table"
  issued :: "statement list"
  open_rows :: nat
  logged :: "(string \<times> error) list"
  fault :: "error option"

subsubsection \<open>Insert with a conflict clause\<close>

definition new_row :: "string list \<Rightarrow> sqlval list \<Rightarrow> row" where
  "new_row cols vals = fold (\<lambda>(c, v) r. r(lower c := v)) (zip cols vals) (\<lambda>_. SNull)"

fun apply_conflict :: "conflict_clause \<Rightarrow> sqlval list \<Rightarrow> row \<Rightarrow> row \<Rightarrow> row" where
  "apply_conflict NoClause args n r = r"
| "apply_conflict (OnDuplicateKeyUpdate cs) args n r = fold (\<lambda>(c, v) r. r(c := v)) (zip cs args) r"
| "apply_conflict (OnConflictDoUpdate k as) args n r = fold (\<lambda>(c, x) r. r(c := n x)) as r"

fun target_ok :: "conflict_clause \<Rightarrow> string \<Rightarrow> bool" where
  "target_ok (OnConflictDoUpdate k as) key = (k = key)"
| "target_ok _ key = True"

definition insert_row :: "conflict_clause \<Rightarrow> sqlval list \<Rightarrow> row \<Rightarrow> table \<Rightarrow> error + table" where
  "insert_row cl args n t =
     (case pkey t of
        None \<Rightarrow> Inr (t\<lparr>trows := trows t @ [n]\<rparr>)
      | Some k \<Rightarrow>
          (if n k = SNull then Inl (BadStatement ''null key'')
           else if \<not> target_ok cl k then Inl (BadStatement ''no unique constraint for ON CONFLICT'')
           else if list_all (\<lambda>r. r k \<noteq> n k) (trows t) then Inr (t\<lparr>trows := trows t @ [n]\<rparr>)
           else if cl = NoClause then Inl (DuplicateKey k)
           else Inr (t\<lparr>trows := map (\<lambda>r. if r k = n k then apply_conflict cl args n r else r) (trows t)\<rparr>)))"

definition exec_insert :: "string \<Rightarrow> insert_stmt \<Rightarrow> (string \<rightharpoonup> table) \<Rightarrow> error + (string \<rightharpoonup> table)" where
  "exec_insert dbt q tabs =
     (case parse_suffix dbt (ins_suffix q) of
        None \<Rightarrow> Inl (SyntaxError (ins_suffix q))
      | Some cl \<Rightarrow>
          (if length (ins_columns q) \<noteq> length (ins_values q) then Inl (BadStatement ''column count'')
           else if placeholders cl \<noteq> length (ins_suffix_args q) then Inl (BadStatement ''argument count'')
           else case tabs (lower (ins_into q)) of
                  None \<Rightarrow> Inl (NoSuchTable (ins_into q))
                | Some t \<Rightarrow>
                    (case insert_row cl (ins_suffix_args q) (new_row (ins_columns q) (ins_values q)) t of
                       Inl e \<Rightarrow> Inl e
                     | Inr t' \<Rightarrow> Inr (tabs(lower (ins_into q) \<mapsto> t')))))"

subsubsection \<open>Select with joins and grouping\<close>

text \<open>
  While a select runs, every table joined so far is bound to one of its rows. A reference
  \<open>table.column\<close> reads that table's row, a bare \<open>column\<close> reads the row of the \<open>FROM\<close>
  table; the columns of a table that a left join could not match are null.
\<close>

type_synonym env = "(string \<times> row) list"

definition split_ref :: "string \<Rightarrow> string option \<times> string" where
  "split_ref s =
     (let s' = lower s
      in if CHR ''.'' \<in> set s'
         then (Some (takeWhile (\<lambda>c. c \<noteq> CHR ''.'') s'), tl (dropWhile (\<lambda>c. c \<noteq> CHR ''.'') s'))
         else (None, s'))"

definition env_get :: "env \<Rightarrow> string \<Rightarrow> sqlval" where
  "env_get e ref =
     (case split_ref ref of
        (Some t, c) \<Rightarrow> (case map_of e t of Some r \<Rightarrow> r c | None \<Rightarrow> SNull)
      | (None, c) \<Rightarrow> (case e of [] \<Rightarrow> SNull | (t, r) # _ \<Rightarrow> r c))"

fun show_nat :: "nat \<Rightarrow> string" where
  "show_nat n = (if n < 10 then [char_of (48 + n)] else show_nat (n div 10) @ [char_of (48 + n mod 10)])"

declare show_nat.simps [simp del]

definition show_int :: "int \<Rightarrow> string" where
  "show_int i = (if i < 0 then CHR ''-'' # show_nat (nat (- i)) else show_nat (nat i))"

fun jscalar_text :: "jscalar \<Rightarrow> sqlval" where
  "jscalar_text JNull = SNull"
| "jscalar_text (JBool b) = SStr (if b then ''true'' else ''false'')"
| "jscalar_text (JNum n) = SStr (show_int n)"
| "jscalar_text (JStr s) = SStr s"
| "jscalar_text (JNested s) = SStr s"

fun eval_operand :: "env \<Rightarrow> operand \<Rightarrow> sqlval" where
  "eval_operand e (Col c) = env_get e c"
| "eval_operand e (Lit l) = SStr l"
| "eval_operand e (JsonText c k) =
     (case env_get e c of
        SJson ms \<Rightarrow> (case map_of ms k of Some j \<Rightarrow> jscalar_text j | None \<Rightarrow> SNull)
      | _ \<Rightarrow> SNull)"

text \<open>A comparison with null is not true; values of different kinds are not equal.\<close>

fun sql_eq :: "sqlval \<Rightarrow> sqlval \<Rightarrow> bool" where
  "sql_eq (SInt a) (SInt b) = (a = b)"
| "sql_eq (SStr a) (SStr b) = (a = b)"
| "sql_eq _ _ = False"

text \<open>\<open>LIKE\<close>: \<open>%\<close> stands for any run of characters, \<open>_\<close> for any one character.\<close>

fun like_match :: "string \<Rightarrow> string \<Rightarrow> bool" where
  "like_match [] s = (s = [])"
| "like_match (p # ps) [] = (p = CHR ''%'' \<and> like_match ps [])"
| "like_match (p # ps) (c # cs) =
     (if p = CHR ''%'' then like_match ps (c # cs) \<or> like_match (p # ps) cs
      else (p = CHR ''_'' \<or> p = c) \<and> like_match ps cs)"

fun sql_like :: "sqlval \<Rightarrow> sqlval \<Rightarrow> bool" where
  "sql_like (SStr s) (SStr p) = like_match p s"
| "sql_like _ _ = False"

fun eval_atom :: "env \<Rightarrow> atom \<Rightarrow> bool" where
  "eval_atom e (CmpEq a b) = sql_eq (eval_operand e a) (eval_operand e b)"
| "eval_atom e (CmpLike a b) = sql_like (eval_operand e a) (eval_operand e b)"

text \<open>
  One join step: every binding is extended by each row of the joined table that satisfies
  the condition; a left join keeps a binding that no row extends.
\<close>

definition join_envs :: "join_kind \<Rightarrow> string \<Rightarrow> atom list \<Rightarrow> row list \<Rightarrow> env list \<Rightarrow> env list" where
  "join_envs k t conds rs es =
     concat (map (\<lambda>e. case filter (\<lambda>e'. list_all (eval_atom e') conds) (map (\<lambda>r. e @ [(t, r)]) rs) of
                        [] \<Rightarrow> (if k = LeftJoin then [e] else [])
                      | m # ms \<Rightarrow> m # ms) es)"

fun run_joins :: "(join_kind \<times> string \<times> atom list) list \<Rightarrow> (string \<rightharpoonup> table) \<Rightarrow> env list \<Rightarrow> error + env list" where
  "run_joins [] tabs es = Inr es"
| "run_joins ((k, t, conds) # js) tabs es =
     (case tabs t of
        None \<Rightarrow> Inl (NoSuchTable t)
      | Some tb \<Rightarrow> run_joins js tabs (join_envs k t conds (trows tb) es))"

text \<open>Grouping keeps the groups in the order in which their first member appears.\<close>

fun add_to_group :: "'k \<Rightarrow> 'v \<Rightarrow> ('k \<times> 'v list) list \<Rightarrow> ('k \<times> 'v list) list" where
  "add_to_group k v [] = [(k, [v])]"
| "add_to_group k v ((k', vs) # gs) =
     (if k' = k then (k', vs @ [v]) # gs else (k', vs) # add_to_group k v gs)"

definition group_envs :: "string list \<Rightarrow> env list \<Rightarrow> env list list" where
  "group_envs cols es =
     (if cols = [] then map (\<lambda>e. [e]) es
      else map snd (foldl (\<lambda>gs e. add_to_group (map (env_get e) cols) e gs) [] es))"

fun eval_sel :: "env list \<Rightarrow> sel_expr \<Rightarrow> sqlval" where
  "eval_sel g (SelCol c) = (case g of [] \<Rightarrow> SNull | e # _ \<Rightarrow> env_get e c)"
| "eval_sel g (SelCount c) = SInt (int (length (filter (\<lambda>e. env_get e c \<noteq> SNull) g)))"
| "eval_sel g (SelCoalesce c d) =
     (case g of [] \<Rightarrow> SNull | e # _ \<Rightarrow> (case env_get e c of SNull \<Rightarrow> SStr d | v \<Rightarrow> v))"

text \<open>
  The whole statement is read before anything runs, so a select expression or a join whose
  text is not SQL fails the statement with a syntax error, whatever the tables hold.
\<close>

fun parse_sel_exprs :: "string list \<Rightarrow> error + sel_expr list" where
  "parse_sel_exprs [] = Inr []"
| "parse_sel_exprs (c # cs) =
     (case parse_sel_expr c of
        None \<Rightarrow> Inl (SyntaxError c)
      | Some x \<Rightarrow> (case parse_sel_exprs cs of Inl e \<Rightarrow> Inl e | Inr xs \<Rightarrow> Inr (x # xs)))"

fun parse_joins :: "(join_kind \<times> string) list \<Rightarrow> error + (join_kind \<times> string \<times> atom list) list" where
  "parse_joins [] = Inr []"
| "parse_joins ((k, txt) # js) =
     (case parse_join txt of
        None \<Rightarrow> Inl (SyntaxError txt)
      | Some (t, conds) \<Rightarrow>
          (case parse_joins js of Inl e \<Rightarrow> Inl e | Inr ps \<Rightarrow> Inr ((k, t, conds) # ps)))"

definition exec_select :: "select_stmt \<Rightarrow> (string \<rightharpoonup> table) \<Rightarrow> error + sqlval list list" where
  "exec_select q tabs =
     (case parse_sel_exprs (sel_columns q) of
        Inl e \<Rightarrow> Inl e
      | Inr exprs \<Rightarrow>
          (case parse_joins (sel_joins q) of
             Inl e \<Rightarrow> Inl e
           | Inr js \<Rightarrow>
               (case tabs (lower (sel_from q)) of
                  None \<Rightarrow> Inl (NoSuchTable (sel_from q))
                | Some tb \<Rightarrow>
                    (case run_joins js tabs (map (\<lambda>r. [(lower (sel_from q), r)]) (trows tb)) of
                       Inl e \<Rightarrow> Inl e
                     | Inr es \<Rightarrow>
                         Inr (map (\<lambda>g. map (eval_sel g) exprs)
                                (group_envs (sel_group_by q)
                                   (filter (\<lambda>e. list_all (\<lambda>(c, v). sql_eq (env_get e c) v) (sel_where q)) es)))))))"

subsubsection \<open>The connection\<close>

text \<open>
  \<open>Exec\<close> and \<open>Query\<close> record the statement as sent. A connection that is down answers with
  its failure and changes nothing; a successful \<open>Query\<close> leaves a row set open.
\<close>

record SQLStore =
  dbType :: string
  tablePrefix :: string

definition Exec :: "SQLStore \<Rightarrow> insert_stmt \<Rightarrow> world \<Rightarrow> error option \<times> world" where
  "Exec s q w =
     (let w1 = w\<lparr>issued := issued w @ [StInsert q]\<rparr>
      in case fault w of
           Some e \<Rightarrow> (Some e, w1)
         | None \<Rightarrow>
             (case exec_insert (dbType s) q (tables w) of
                Inl e \<Rightarrow> (Some e, w1)
              | Inr tabs \<Rightarrow> (None, w1\<lparr>tables := tabs\<rparr>)))"

definition Query :: "SQLStore \<Rightarrow> select_stmt \<Rightarrow> world \<Rightarrow> (error + sqlval list list) \<times> world" where
  "Query s q w =
     (let w1 = w\<lparr>issued := issued w @ [StSelect q]\<rparr>
      in case fault w of
           Some e \<Rightarrow> (Inl e, w1)
         | None \<Rightarrow>
             (case exec_select q (tables w) of
                Inl e \<Rightarrow> (Inl e, w1)
              | Inr rows \<Rightarrow> (Inr rows, w1\<lparr>open_rows := Suc (open_rows w1)\<rparr>)))"

definition CloseRows :: "world \<Rightarrow> world" where
  "CloseRows w = w\<lparr>open_rows := open_rows w - 1\<rparr>"

text \<open>
  \<open>QueryRow\<close> followed by \<open>Scan\<close> reads the first row of the result and closes the row set;
  a result without rows is \<open>sql.ErrNoRows\<close>.
\<close>

definition QueryRow :: "SQLStore \<Rightarrow> select_stmt \<Rightarrow> world \<Rightarrow> (error + sqlval list) \<times> world" where
  "QueryRow s q w =
     (case Query s q w of
        (Inl e, w1) \<Rightarrow> (Inl e, w1)
      | (Inr rows, w1) \<Rightarrow>
          (case rows of [] \<Rightarrow> (Inl ErrNoRows, CloseRows w1) | r # _ \<Rightarrow> (Inr r, CloseRows w1)))"

definition log_error :: "string \<Rightarrow> error \<Rightarrow> world \<Rightarrow> world" where
  "log_error msg e w = w\<lparr>logged := logged w @ [(msg, e)]\<rparr>"

subsubsection \<open>Scanning a value into a Go variable\<close>

text \<open>
  \<open>database/sql\<close> converts a column value to the type of the destination: null converts
  to neither a string nor an integer, an integer is written in decimal for a string
  destination, a string is parsed (\<open>strconv.ParseInt\<close>, 64 bits) for an integer one.
\<close>

definition is_digit :: "char \<Rightarrow> bool" where
  "is_digit c = (let n = (of_char c :: nat) in 48 \<le> n \<and> n \<le> 57)"

definition parse_nat :: "string \<Rightarrow> nat option" where
  "parse_nat s =
     (if s \<noteq> [] \<and> list_all is_digit s
      then Some (foldl (\<lambda>a c. 10 * a + (of_char c - 48)) 0 s) else None)"

definition parse_int :: "string \<Rightarrow> int option" where
  "parse_int s =
     (case s of
        [] \<Rightarrow> None
      | c # cs \<Rightarrow>
          (if c = CHR ''-'' then map_option (\<lambda>n. - int n) (parse_nat cs)
           else if c = CHR ''+'' then map_option int (parse_nat cs)
           else map_option int (parse_nat s)))"

definition in_int64 :: "int \<Rightarrow> bool" where
  "in_int64 i = (- (2 ^ 63) \<le> i \<and> i < 2 ^ 63)"

fun scan_string :: "sqlval \<Rightarrow> error + string" where
  "scan_string (SStr s) = Inr s"
| "scan_string (SInt i) = Inr (show_int i)"
| "scan_string SNull = Inl (ScanError ''converting NULL to string is unsupported'')"
| "scan_string (SJson ms) = Inl (ScanError ''unsupported Scan, storing JSON members into type *string'')"

fun scan_int :: "sqlval \<Rightarrow> error + int" where
  "scan_int (SInt i) = (if in_int64 i then Inr i else Inl (ScanError ''value out of range''))"
| "scan_int (SStr s) =
     (case parse_int s of
        None \<Rightarrow> Inl (ScanError ''invalid syntax'')
      | Some i \<Rightarrow> (if in_int64 i then Inr i else Inl (ScanError ''value out of range'')))"
| "scan_int SNull = Inl (ScanError ''converting NULL to int is unsupported'')"
| "scan_int (SJson ms) = Inl (ScanError ''unsupported Scan, storing JSON members into type *int'')"

subsection \<open>The repository\<close>

text \<open>
  \<open>model.Workspace\<close> and \<open>model.UserWorkspace\<close>. The settings are a Go map from strings to
  arbitrary values (\<open>'v\<close>). \<open>encoding/json\<close> is a parameter of the model: \<open>Marshal\<close> may
  refuse a value, \<open>Unmarshal\<close> may refuse a text.
\<close>

record 'v Workspace =
  ID :: string
  SignupToken :: string
  Settings :: "string \<rightharpoonup> 'v"
  ModifiedBy :: string
  UpdateAt :: int

record UserWorkspace =
  UserWorkspace_ID :: string
  Title :: string
  BoardCount :: int

record 'v json =
  Marshal :: "(string \<rightharpoonup> 'v) \<Rightarrow> error + string"
  Unmarshal :: "string \<Rightarrow> error + (string \<rightharpoonup> 'v)"

text \<open>
  A Go function that returns \<open>(result, error)\<close> returns a pair here: \<open>None\<close> in the first
  place is the nil pointer or nil slice, \<open>None\<close> in the second the nil error. The current
  time (\<open>time.Now().Unix()\<close>) and the fresh token (\<open>utils.CreateGUID()\<close>) are arguments.
  The statement that a function builds (the value of \<open>query\<close> when it is run) is a
  definition of its own, so that theorems can speak about its text.
\<close>

definition UpsertWorkspaceSignupToken_query :: "SQLStore \<Rightarrow> int \<Rightarrow> 'v Workspace \<Rightarrow> insert_stmt" where
  "UpsertWorkspaceSignupToken_query s now workspace =
     (let query =
            \<lparr>ins_into = tablePrefix s @ ''workspaces'',
             ins_columns = [''id'', ''signup_token'', ''modified_by'', ''update_at''],
             ins_values = [SStr (ID workspace), SStr (SignupToken workspace),
                           SStr (ModifiedBy workspace), SInt now],
             ins_suffix = [],
             ins_suffix_args = []\<rparr>
      in if dbType s = mysqlDBType
         then query\<lparr>ins_suffix := ''ON DUPLICATE KEY UPDATE signup_token = ?, modified_by = ?, update_at = ?'',
                    ins_suffix_args := [SStr (SignupToken workspace), SStr (ModifiedBy workspace), SInt now]\<rparr>
         else query\<lparr>ins_suffix :=
                      ''ON CONFLICT (id)'' @ [CHR 0x0A, CHR 0x09, CHR 0x09, CHR 0x09] @
                      '' DO UPDATE SET signup_token = EXCLUDED.signup_token, modified_by = EXCLUDED.modified_by, update_at = EXCLUDED.update_at''\<rparr>)"

definition UpsertWorkspaceSignupToken ::
    "SQLStore \<Rightarrow> int \<Rightarrow> 'v Workspace \<Rightarrow> world \<Rightarrow> error option \<times> world" where
  "UpsertWorkspaceSignupToken s now workspace w =
     Exec s (UpsertWorkspaceSignupToken_query s now workspace) w"

definition UpsertWorkspaceSettings_query ::
    "SQLStore \<Rightarrow> int \<Rightarrow> string \<Rightarrow> string \<Rightarrow> 'v Workspace \<Rightarrow> insert_stmt" where
  "UpsertWorkspaceSettings_query s now signupToken settingsJSON workspace =
     (let query =
            \<lparr>ins_into = tablePrefix s @ ''workspaces'',
             ins_columns = [''id'', ''signup_token'', ''settings'', ''modified_by'', ''update_at''],
             ins_values = [SStr (ID workspace), SStr signupToken, SStr settingsJSON,
                           SStr (ModifiedBy workspace), SInt now],
             ins_suffix = [],
             ins_suffix_args = []\<rparr>
      in if dbType s = mysqlDBType
         then query\<lparr>ins_suffix := ''ON DUPLICATE KEY UPDATE settings = ?, modified_by = ?, update_at = ?'',
                    ins_suffix_args := [SStr settingsJSON, SStr (ModifiedBy workspace), SInt now]\<rparr>
         else query\<lparr>ins_suffix :=
                      ''ON CONFLICT (id)'' @ [CHR 0x0A, CHR 0x09, CHR 0x09, CHR 0x09] @
                      '' DO UPDATE SET settings = EXCLUDED.settings, modified_by = EXCLUDED.modified_by, update_at = EXCLUDED.update_at''\<rparr>)"

definition UpsertWorkspaceSettings ::
    "'v json \<Rightarrow> SQLStore \<Rightarrow> int \<Rightarrow> string \<Rightarrow> 'v Workspace \<Rightarrow> world \<Rightarrow> error option \<times> world" where
  "UpsertWorkspaceSettings js s now signupToken workspace w =
     (case Marshal js (Settings workspace) of
        Inl err \<Rightarrow> (Some err, w)
      | Inr settingsJSON \<Rightarrow>
          Exec s (UpsertWorkspaceSettings_query s now signupToken settingsJSON workspace) w)"

definition GetWorkspace_query :: "SQLStore \<Rightarrow> string \<Rightarrow> select_stmt" where
  "GetWorkspace_query s ident =
     \<lparr>sel_columns = [''id'', ''signup_token'', ''COALESCE(settings, '{}')'', ''modified_by'', ''update_at''],
      sel_from = tablePrefix s @ ''workspaces'',
      sel_joins = [],
      sel_where = [(''id'', SStr ident)],
      sel_group_by = []\<rparr>"

definition GetWorkspace ::
    "'v json \<Rightarrow> SQLStore \<Rightarrow> string \<Rightarrow> world \<Rightarrow> ('v Workspace option \<times> error option) \<times> world" where
  "GetWorkspace js s ident w =
     (case QueryRow s (GetWorkspace_query s ident) w of
        (Inl err, w1) \<Rightarrow> ((None, Some err), w1)
      | (Inr r, w1) \<Rightarrow>
          (case r of
             [c1, c2, c3, c4, c5] \<Rightarrow>
               (case scan_string c1 of Inl err \<Rightarrow> ((None, Some err), w1) | Inr wID \<Rightarrow>
                case scan_string c2 of Inl err \<Rightarrow> ((None, Some err), w1) | Inr wSignupToken \<Rightarrow>
                case scan_string c3 of Inl err \<Rightarrow> ((None, Some err), w1) | Inr settingsJSON \<Rightarrow>
                case scan_string c4 of Inl err \<Rightarrow> ((None, Some err), w1) | Inr wModifiedBy \<Rightarrow>
                case scan_int c5 of Inl err \<Rightarrow> ((None, Some err), w1) | Inr wUpdateAt \<Rightarrow>
                case Unmarshal js settingsJSON of
                  Inl err \<Rightarrow>
                    ((None, Some err), log_error ''ERROR GetWorkspace settings json.Unmarshal'' err w1)
                | Inr wSettings \<Rightarrow>
                    ((Some \<lparr>ID = wID, SignupToken = wSignupToken, Settings = wSettings,
                            ModifiedBy = wModifiedBy, UpdateAt = wUpdateAt\<rparr>, None), w1))
           | _ \<Rightarrow> ((None, Some (ScanError ''sql: expected 5 destination arguments in Scan'')), w1)))"

definition HasWorkspaceAccess :: "SQLStore \<Rightarrow> string \<Rightarrow> string \<Rightarrow> world \<Rightarrow> (bool \<times> error option) \<times> world" where
  "HasWorkspaceAccess s userID workspaceID w = ((True, None), w)"

text \<open>
  \<open>rows.Scan(&userWorkspace.ID, &userWorkspace.Title, &userWorkspace.BoardCount)\<close>: three
  destinations, filled from the columns of the row in this order.
\<close>

definition scanUserWorkspace :: "sqlval list \<Rightarrow> error + UserWorkspace" where
  "scanUserWorkspace r =
     (case r of
        [c1, c2, c3] \<Rightarrow>
          (case scan_string c1 of Inl err \<Rightarrow> Inl err | Inr i \<Rightarrow>
           case scan_string c2 of Inl err \<Rightarrow> Inl err | Inr t \<Rightarrow>
           case scan_int c3 of Inl err \<Rightarrow> Inl err | Inr n \<Rightarrow>
           Inr \<lparr>UserWorkspace_ID = i, Title = t, BoardCount = n\<rparr>)
      | _ \<Rightarrow> Inl (ScanError ''sql: expected 3 destination arguments in Scan''))"

text \<open>The loop of \<open>userWorkspacesFromRows\<close>, with the slice built so far.\<close>

fun userWorkspacesFromRows_loop ::
    "UserWorkspace list \<Rightarrow> sqlval list list \<Rightarrow> world \<Rightarrow> (UserWorkspace list option \<times> error option) \<times> world" where
  "userWorkspacesFromRows_loop userWorkspaces [] w = ((Some userWorkspaces, None), w)"
| "userWorkspacesFromRows_loop userWorkspaces (r # rows) w =
     (case scanUserWorkspace r of
        Inl err \<Rightarrow> ((None, Some err), log_error ''ERROR userWorkspacesFromRows'' err w)
      | Inr userWorkspace \<Rightarrow> userWorkspacesFromRows_loop (userWorkspaces @ [userWorkspace]) rows w)"

definition userWorkspacesFromRows ::
    "SQLStore \<Rightarrow> sqlval list list \<Rightarrow> world \<Rightarrow> (UserWorkspace list option \<times> error option) \<times> world" where
  "userWorkspacesFromRows s rows w = userWorkspacesFromRows_loop [] rows w"

text \<open>The \<open>switch\<close> on the dialect; \<open>None\<close> is its \<open>default\<close> branch.\<close>

definition nonTemplateFilter :: "string \<Rightarrow> string option" where
  "nonTemplateFilter dbt =
     (if dbt = mysqlDBType then Some ''focalboard_blocks.fields LIKE %\"isTemplate\":false%''
      else if dbt = postgresDBType then Some (''focalboard_blocks.fields ->> 'isTemplate' = 'false'' @ [quote])
      else None)"

definition GetUserWorkspaces_query :: "string \<Rightarrow> string \<Rightarrow> select_stmt" where
  "GetUserWorkspaces_query nonTemplate userID =
     \<lparr>sel_columns = [''Channels.ID'', ''Channels.DisplayName'', ''COUNT(focalboard_blocks.id)''],
      sel_from = ''ChannelMembers'',
      sel_joins =
        [(LeftJoin,
          ''focalboard_blocks ON focalboard_blocks.workspace_id = ChannelMembers.ChannelId AND '' @
          ''focalboard_blocks.type = 'board' AND '' @
          nonTemplate),
         (InnerJoin, ''Channels ON ChannelMembers.ChannelId = Channels.Id'')],
      sel_where = [(''ChannelMembers.UserId'', SStr userID)],
      sel_group_by = [''Channels.Id'', ''Channels.DisplayName'']\<rparr>"

definition GetUserWorkspaces ::
    "SQLStore \<Rightarrow> string \<Rightarrow> world \<Rightarrow> (UserWorkspace list option \<times> error option) \<times> world" where
  "GetUserWorkspaces s userID w =
     (case nonTemplateFilter (dbType s) of
        None \<Rightarrow> ((None, Some (Wrapped ''GetUserWorkspaces - '' errUnsupportedDatabaseError)), w)
      | Some nonTemplate \<Rightarrow>
          (case Query s (GetUserWorkspaces_query nonTemplate userID) w of
             (Inl err, w1) \<Rightarrow> ((None, Some err), log_error ''ERROR GetUserWorkspaces'' err w1)
           | (Inr rows, w1) \<Rightarrow>
               (case userWorkspacesFromRows s rows w1 of (res, w2) \<Rightarrow> (res, CloseRows w2))))"

subsection \<open>Notions used in the statements\<close>

text \<open>The name under which the engine knows the table \<open>tablePrefix + "workspaces"\<close>.\<close>

definition workspaces_table :: "SQLStore \<Rightarrow> string" where
  "workspaces_table s = lower (tablePrefix s @ ''workspaces'')"

text \<open>The columns that a conflict clause assigns.\<close>

fun clause_columns :: "conflict_clause \<Rightarrow> string list" where
  "clause_columns NoClause = []"
| "clause_columns (OnDuplicateKeyUpdate cs) = cs"
| "clause_columns (OnConflictDoUpdate k as) = map fst as"

text \<open>
  An upsert keyed on \<open>id\<close>, as a function on the rows of the table: the row \<open>n\<close> is added
  when no row has the identifier, otherwise \<open>u\<close> rewrites the row that has it.
\<close>

definition upsert_rows :: "string \<Rightarrow> row \<Rightarrow> (row \<Rightarrow> row) \<Rightarrow> row list \<Rightarrow> row list" where
  "upsert_rows ident n u rs =
     (if list_all (\<lambda>r. r ''id'' \<noteq> SStr ident) rs then rs @ [n]
      else map (\<lambda>r. if r ''id'' = SStr ident then u r else r) rs)"

definition token_row :: "int \<Rightarrow> 'v Workspace \<Rightarrow> row" where
  "token_row now ws =
     (\<lambda>_. SNull)(''id'' := SStr (ID ws), ''signup_token'' := SStr (SignupToken ws),
                  ''modified_by'' := SStr (ModifiedBy ws), ''update_at'' := SInt now)"

definition token_update :: "int \<Rightarrow> 'v Workspace \<Rightarrow> row \<Rightarrow> row" where
  "token_update now ws r =
     r(''signup_token'' := SStr (SignupToken ws), ''modified_by'' := SStr (ModifiedBy ws),
       ''update_at'' := SInt now)"

definition settings_row :: "int \<Rightarrow> string \<Rightarrow> string \<Rightarrow> 'v Workspace \<Rightarrow> row" where
  "settings_row now tok settingsJSON ws =
     (\<lambda>_. SNull)(''id'' := SStr (ID ws), ''signup_token'' := SStr tok,
                  ''settings'' := SStr settingsJSON, ''modified_by'' := SStr (ModifiedBy ws),
                  ''update_at'' := SInt now)"

definition settings_update :: "int \<Rightarrow> string \<Rightarrow> 'v Workspace \<Rightarrow> row \<Rightarrow> row" where
  "settings_update now settingsJSON ws r =
     r(''settings'' := SStr settingsJSON, ''modified_by'' := SStr (ModifiedBy ws),
       ''update_at'' := SInt now)"

text \<open>The five values that \<open>GetWorkspace\<close> selects from a row of the workspaces table.\<close>

definition workspace_columns :: "row \<Rightarrow> sqlval list" where
  "workspace_columns r =
     [r ''id'', r ''signup_token'', (case r ''settings'' of SNull \<Rightarrow> SStr ''{}'' | v \<Rightarrow> v),
      r ''modified_by'', r ''update_at'']"

subsection \<open>Sample stores and databases\<close>

definition mysql_store :: SQLStore where
  "mysql_store = \<lparr>dbType = ''mysql'', tablePrefix = ''focalboard_''\<rparr>"

definition postgres_store :: SQLStore where
  "postgres_store = \<lparr>dbType = ''postgres'', tablePrefix = ''focalboard_''\<rparr>"

definition sqlite_store :: SQLStore where
  "sqlite_store = \<lparr>dbType = ''sqlite3'', tablePrefix = ''focalboard_''\<rparr>"

definition mk_row :: "(string \<times> sqlval) list \<Rightarrow> row" where
  "mk_row kvs = (\<lambda>c. case map_of kvs c of Some v \<Rightarrow> v | None \<Rightarrow> SNull)"

text \<open>A workspace row written by \<open>UpsertWorkspaceSignupToken\<close> only: its settings are null.\<close>

definition team_row :: row where
  "team_row = mk_row [(''id'', SStr ''team''), (''signup_token'', SStr ''tok-0''),
                      (''modified_by'', SStr ''alice''), (''update_at'', SInt 100)]"

definition workspaces_sample :: table where
  "workspaces_sample = \<lparr>pkey = Some ''id'', trows = [team_row]\<rparr>"

definition sample_world :: world where
  "sample_world =
     \<lparr>tables = [''focalboard_workspaces'' \<mapsto> workspaces_sample],
      issued = [], open_rows = 0, logged = [], fault = None\<rparr>"

text \<open>A database whose workspace row already stores a settings document.\<close>

definition configured_row :: row where
  "configured_row = mk_row [(''id'', SStr ''team''), (''signup_token'', SStr ''tok-0''),
                            (''settings'', SStr ''{\"a\":1}''),
                            (''modified_by'', SStr ''alice''), (''update_at'', SInt 100)]"

definition configured_world :: world where
  "configured_world =
     \<lparr>tables = [''focalboard_workspaces'' \<mapsto> \<lparr>pkey = Some ''id'', trows = [configured_row]\<rparr>],
      issued = [], open_rows = 0, logged = [], fault = None\<rparr>"

definition team_first :: "string Workspace" where
  "team_first = \<lparr>ID = ''team'', SignupToken = ''tok-1'', Settings = Map.empty,
                  ModifiedBy = ''bob'', UpdateAt = 0\<rparr>"

definition team_second :: "string Workspace" where
  "team_second = \<lparr>ID = ''team'', SignupToken = ''tok-2'', Settings = Map.empty,
                   ModifiedBy = ''carol'', UpdateAt = 0\<rparr>"

text \<open>
  A codec for the samples: it writes the empty map as \<open>{}\<close> and reads it back, and it
  refuses a map with the key \<open>chan\<close> (Go cannot encode a channel).
\<close>

definition sample_json :: "string json" where
  "sample_json =
     \<lparr>Marshal = (\<lambda>m. if m ''chan'' \<noteq> None then Inl (JSONError ''json: unsupported type: chan int'')
                      else Inr ''{}''),
      Unmarshal = (\<lambda>s. if s = ''{}'' then Inr Map.empty
                        else Inl (JSONError ''invalid character''))\<rparr>"

text \<open>
  Two more codecs, to tell a decoded value from a default one: the first reads \<open>{}\<close> as
  a map with one entry, the second refuses every text.
\<close>

definition marking_json :: "string json" where
  "marking_json =
     \<lparr>Marshal = (\<lambda>m. Inr ''{}''),
      Unmarshal = (\<lambda>s. if s = ''{}'' then Inr [''decoded'' \<mapsto> ''yes'']
                        else Inl (JSONError ''invalid character''))\<rparr>"

definition refusing_json :: "string json" where
  "refusing_json =
     \<lparr>Marshal = (\<lambda>m. Inr ''{}''),
      Unmarshal = (\<lambda>s. Inl (JSONError ''unexpected end of JSON input''))\<rparr>"

definition team_unencodable :: "string Workspace" where
  "team_unencodable = \<lparr>ID = ''team'', SignupToken = [], Settings = [''chan'' \<mapsto> ''c''],
                        ModifiedBy = ''bob'', UpdateAt = 0\<rparr>"

text \<open>
  The chat tables and the blocks table for user \<open>u1\<close>, member of channel \<open>C\<close> (two boards
  that are not templates, one template board, one card) and of channel \<open>D\<close> (no block).
  The fields of a block are text under MySQL and JSON under PostgreSQL.
\<close>

definition board_tables :: "sqlval \<Rightarrow> sqlval \<Rightarrow> (string \<rightharpoonup> table)" where
  "board_tables plain template =
     [''channelmembers'' \<mapsto>
        \<lparr>pkey = None,
         trows = [mk_row [(''userid'', SStr ''u1''), (''channelid'', SStr ''C'')],
                  mk_row [(''userid'', SStr ''u1''), (''channelid'', SStr ''D'')],
                  mk_row [(''userid'', SStr ''u2''), (''channelid'', SStr ''C'')]]\<rparr>,
      ''channels'' \<mapsto>
        \<lparr>pkey = Some ''id'',
         trows = [mk_row [(''id'', SStr ''C''), (''displayname'', SStr ''Town Square'')],
                  mk_row [(''id'', SStr ''D''), (''displayname'', SStr ''Off-Topic'')]]\<rparr>,
      ''focalboard_blocks'' \<mapsto>
        \<lparr>pkey = Some ''id'',
         trows = [mk_row [(''id'', SStr ''b1''), (''workspace_id'', SStr ''C''),
                          (''type'', SStr ''board''), (''fields'', plain)],
                  mk_row [(''id'', SStr ''b2''), (''workspace_id'', SStr ''C''),
                          (''type'', SStr ''board''), (''fields'', plain)],
                  mk_row [(''id'', SStr ''b3''), (''workspace_id'', SStr ''C''),
                          (''type'', SStr ''board''), (''fields'', template)],
                  mk_row [(''id'', SStr ''b4''), (''workspace_id'', SStr ''C''),
                          (''type'', SStr ''card''), (''fields'', plain)]]\<rparr>]"

definition boards_world_mysql :: world where
  "boards_world_mysql =
     \<lparr>tables = board_tables (SStr ''{\"isTemplate\":false}'') (SStr ''{\"isTemplate\":true}''),
      issued = [], open_rows = 0, logged = [], fault = None\<rparr>"

definition boards_world_postgres :: world where
  "boards_world_postgres =
     \<lparr>tables = board_tables (SJson [(''isTemplate'', JBool False)]) (SJson [(''isTemplate'', JBool True)]),
      issued = [], open_rows = 0, logged = [], fault = None\<rparr>"

text \<open>The text of the left join that \<open>GetUserWorkspaces\<close> sends under MySQL.\<close>

definition mysql_left_join :: string where
  "mysql_left_join =
     ''focalboard_blocks ON focalboard_blocks.workspace_id = ChannelMembers.ChannelId AND '' @
     ''focalboard_blocks.type = 'board' AND '' @
     ''focalboard_blocks.fields LIKE %\"isTemplate\":false%''"

text \<open>The filter that \<open>GetUserWorkspaces\<close> uses under PostgreSQL.\<close>

definition postgres_filter :: string where
  "postgres_filter = ''focalboard_blocks.fields ->> 'isTemplate' = 'false'' @ [quote]"

text \<open>The MySQL filter with its pattern written as a string literal.\<close>

definition quoted_mysql_filter :: string where
  "quoted_mysql_filter = ''focalboard_blocks.fields LIKE '%\"isTemplate\":false%'' @ [quote]"

text \<open>Result rows for \<open>userWorkspacesFromRows\<close>; the second has a null title.\<close>

definition good_result_row :: "sqlval list" where
  "good_result_row = [SStr ''C'', SStr ''Town Square'', SInt 2]"

definition bad_result_row :: "sqlval list" where
  "bad_result_row = [SStr ''D'', SNull, SInt 0]"

section \<open>Verification\<close>

subsection \<open>The SQL text of the upserts, as the engine reads it\<close>

lemma mysql_not_postgres: "mysqlDBType \<noteq> postgresDBType" "postgresDBType \<noteq> mysqlDBType"
  by (simp_all add: mysqlDBType_def postgresDBType_def)

lemma parse_suffix_token_mysql:
  "parse_suffix mysqlDBType ''ON DUPLICATE KEY UPDATE signup_token = ?, modified_by = ?, update_at = ?''
     = Some (OnDuplicateKeyUpdate [''signup_token'', ''modified_by'', ''update_at''])"
  by code_simp

lemma parse_suffix_token_postgres:
  "parse_suffix postgresDBType
     (''ON CONFLICT (id)'' @ [CHR 0x0A, CHR 0x09, CHR 0x09, CHR 0x09] @
      '' DO UPDATE SET signup_token = EXCLUDED.signup_token, modified_by = EXCLUDED.modified_by, update_at = EXCLUDED.update_at'')
     = Some (OnConflictDoUpdate ''id''
               [(''signup_token'', ''signup_token''), (''modified_by'', ''modified_by''),
                (''update_at'', ''update_at'')])"
  by code_simp

lemmas parse_suffix_token_postgres_flat = parse_suffix_token_postgres [unfolded append.simps]

lemma parse_suffix_settings_mysql:
  "parse_suffix mysqlDBType ''ON DUPLICATE KEY UPDATE settings = ?, modified_by = ?, update_at = ?''
     = Some (OnDuplicateKeyUpdate [''settings'', ''modified_by'', ''update_at''])"
  by code_simp

lemma parse_suffix_settings_postgres:
  "parse_suffix postgresDBType
     (''ON CONFLICT (id)'' @ [CHR 0x0A, CHR 0x09, CHR 0x09, CHR 0x09] @
      '' DO UPDATE SET settings = EXCLUDED.settings, modified_by = EXCLUDED.modified_by, update_at = EXCLUDED.update_at'')
     = Some (OnConflictDoUpdate ''id''
               [(''settings'', ''settings''), (''modified_by'', ''modified_by''),
                (''update_at'', ''update_at'')])"
  by code_simp

lemmas parse_suffix_settings_postgres_flat = parse_suffix_settings_postgres [unfolded append.simps]

lemma lower_columns:
  "lower ''id'' = ''id''" "lower ''signup_token'' = ''signup_token''"
  "lower ''settings'' = ''settings''" "lower ''modified_by'' = ''modified_by''"
  "lower ''update_at'' = ''update_at''"
  by code_simp+

lemma new_row_4:
  "new_row [''id'', ''signup_token'', ''modified_by'', ''update_at''] [a, b, c, d] =
     (\<lambda>_. SNull)(''id'' := a, ''signup_token'' := b, ''modified_by'' := c, ''update_at'' := d)"
  by (simp add: new_row_def lower_columns)

lemma new_row_5:
  "new_row [''id'', ''signup_token'', ''settings'', ''modified_by'', ''update_at''] [a, b, c, d, e] =
     (\<lambda>_. SNull)(''id'' := a, ''signup_token'' := b, ''settings'' := c, ''modified_by'' := d,
                  ''update_at'' := e)"
  by (simp add: new_row_def lower_columns)

subsection \<open>What an upsert does to the table\<close>

lemma insert_row_upsert:
  assumes "pkey t = Some k" and "n k \<noteq> SNull" and "target_ok cl k" and "cl \<noteq> NoClause"
  shows "insert_row cl args n t =
           Inr (t\<lparr>trows := (if list_all (\<lambda>r. r k \<noteq> n k) (trows t) then trows t @ [n]
                             else map (\<lambda>r. if r k = n k then apply_conflict cl args n r else r) (trows t))\<rparr>)"
  using assms by (simp add: insert_row_def)


lemma apply_conflict_token_mysql:
  "apply_conflict (OnDuplicateKeyUpdate [''signup_token'', ''modified_by'', ''update_at''])
     [SStr (SignupToken ws), SStr (ModifiedBy ws), SInt now] n r = token_update now ws r"
  by (simp add: token_update_def)

lemma apply_conflict_token_postgres:
  "apply_conflict (OnConflictDoUpdate ''id''
       [(''signup_token'', ''signup_token''), (''modified_by'', ''modified_by''),
        (''update_at'', ''update_at'')]) args (token_row now ws) r = token_update now ws r"
  by (simp add: token_update_def token_row_def)

lemma UpsertWorkspaceSignupToken_effect:
  assumes d: "dbType s = mysqlDBType \<or> dbType s = postgresDBType"
    and t: "tables w (workspaces_table s) = Some t"
    and k: "pkey t = Some ''id''"
    and f: "fault w = None"
  shows "fst (UpsertWorkspaceSignupToken s now ws w) = None"
    and "tables (snd (UpsertWorkspaceSignupToken s now ws w)) =
           (tables w)(workspaces_table s \<mapsto>
              t\<lparr>trows := upsert_rows (ID ws) (token_row now ws) (token_update now ws) (trows t)\<rparr>)"
    and "fault (snd (UpsertWorkspaceSignupToken s now ws w)) = None"
proof -
  have n: "new_row [''id'', ''signup_token'', ''modified_by'', ''update_at'']
             [SStr (ID ws), SStr (SignupToken ws), SStr (ModifiedBy ws), SInt now] = token_row now ws"
    by (simp add: new_row_4 token_row_def)
  have i: "token_row now ws ''id'' = SStr (ID ws)"
    by (simp add: token_row_def)
  have "fst (UpsertWorkspaceSignupToken s now ws w) = None
      \<and> tables (snd (UpsertWorkspaceSignupToken s now ws w)) =
           (tables w)(workspaces_table s \<mapsto>
              t\<lparr>trows := upsert_rows (ID ws) (token_row now ws) (token_update now ws) (trows t)\<rparr>)
      \<and> fault (snd (UpsertWorkspaceSignupToken s now ws w)) = None"
    using d
  proof
    assume m: "dbType s = mysqlDBType"
    show ?thesis
      using t k f
      by (simp add: UpsertWorkspaceSignupToken_def UpsertWorkspaceSignupToken_query_def Exec_def exec_insert_def m
          parse_suffix_token_mysql n i insert_row_upsert workspaces_table_def
          upsert_rows_def apply_conflict_token_mysql del: apply_conflict.simps cong: if_cong)
  next
    assume p: "dbType s = postgresDBType"
    show ?thesis
      using t k f mysql_not_postgres
      by (simp add: UpsertWorkspaceSignupToken_def UpsertWorkspaceSignupToken_query_def Exec_def exec_insert_def p
          parse_suffix_token_postgres_flat n i insert_row_upsert workspaces_table_def
          upsert_rows_def apply_conflict_token_postgres del: apply_conflict.simps cong: if_cong)
  qed
  then show "fst (UpsertWorkspaceSignupToken s now ws w) = None"
    and "tables (snd (UpsertWorkspaceSignupToken s now ws w)) =
           (tables w)(workspaces_table s \<mapsto>
              t\<lparr>trows := upsert_rows (ID ws) (token_row now ws) (token_update now ws) (trows t)\<rparr>)"
    and "fault (snd (UpsertWorkspaceSignupToken s now ws w)) = None"
    by simp_all
qed

lemma filter_upsert_rows:
  assumes "n ''id'' = SStr i" and "\<forall>r. u r ''id'' = r ''id''"
  shows "filter (\<lambda>r. r ''id'' = SStr i) (upsert_rows i n u rs) =
           (if list_all (\<lambda>r. r ''id'' \<noteq> SStr i) rs then [n]
            else map u (filter (\<lambda>r. r ''id'' = SStr i) rs))"
proof -
  have a: "list_all (\<lambda>r. r ''id'' \<noteq> SStr i) rs \<Longrightarrow> filter (\<lambda>r. r ''id'' = SStr i) rs = []"
    by (induction rs) auto
  have b: "filter (\<lambda>r. r ''id'' = SStr i) (map (\<lambda>r. if r ''id'' = SStr i then u r else r) rs) =
             map u (filter (\<lambda>r. r ''id'' = SStr i) rs)"
    using assms(2) by (induction rs) auto
  show ?thesis
    using assms(1) a b by (simp add: upsert_rows_def)
qed

lemma distinct_filter_single:
  assumes "distinct (map f rs)" and "\<not> list_all (\<lambda>r. f r \<noteq> v) rs"
  shows "\<exists>x. filter (\<lambda>r. f r = v) rs = [x]"
  using assms
proof (induction rs)
  case Nil
  then show ?case by simp
next
  case (Cons r rs)
  show ?case
  proof (cases "f r = v")
    case True
    with Cons.prems(1) have "\<forall>y \<in> set rs. f y \<noteq> v" by (force simp: image_iff)
    then have "filter (\<lambda>r. f r = v) rs = []" by (induction rs) auto
    with True show ?thesis by simp
  next
    case False
    with Cons show ?thesis by simp
  qed
qed

lemma filter_singleton_not_all:
  assumes "filter P rs = [x]"
  shows "\<not> list_all (\<lambda>r. \<not> P r) rs"
proof
  assume "list_all (\<lambda>r. \<not> P r) rs"
  then have "filter P rs = []" by (induction rs) auto
  with assms show False by simp
qed

lemma upsert_rows_single:
  assumes "distinct (map (\<lambda>r. r ''id'') rs)" and "n ''id'' = SStr i" and "\<forall>r. u r ''id'' = r ''id''"
  shows "\<exists>x. filter (\<lambda>r. r ''id'' = SStr i) (upsert_rows i n u rs) = [x]"
proof (cases "list_all (\<lambda>r. r ''id'' \<noteq> SStr i) rs")
  case True
  then show ?thesis using filter_upsert_rows [of n i u rs] assms(2,3) by simp
next
  case False
  from distinct_filter_single [OF assms(1) False] obtain x
    where "filter (\<lambda>r. r ''id'' = SStr i) rs = [x]" by blast
  with False show ?thesis using filter_upsert_rows [of n i u rs] assms(2,3) by simp
qed

lemma token_update_id: "token_update now ws r ''id'' = r ''id''"
  by (simp add: token_update_def)

lemma token_row_id: "token_row now ws ''id'' = SStr (ID ws)"
  by (simp add: token_row_def)

lemma apply_conflict_settings_mysql:
  "apply_conflict (OnDuplicateKeyUpdate [''settings'', ''modified_by'', ''update_at''])
     [SStr j, SStr (ModifiedBy ws), SInt now] n r = settings_update now j ws r"
  by (simp add: settings_update_def)

lemma apply_conflict_settings_postgres:
  "apply_conflict (OnConflictDoUpdate ''id''
       [(''settings'', ''settings''), (''modified_by'', ''modified_by''),
        (''update_at'', ''update_at'')]) args (settings_row now tok j ws) r = settings_update now j ws r"
  by (simp add: settings_update_def settings_row_def)

lemma UpsertWorkspaceSettings_effect:
  assumes d: "dbType s = mysqlDBType \<or> dbType s = postgresDBType"
    and t: "tables w (workspaces_table s) = Some t"
    and k: "pkey t = Some ''id''"
    and f: "fault w = None"
    and m: "Marshal js (Settings ws) = Inr j"
  shows "fst (UpsertWorkspaceSettings js s now tok ws w) = None
      \<and> tables (snd (UpsertWorkspaceSettings js s now tok ws w)) =
           (tables w)(workspaces_table s \<mapsto>
              t\<lparr>trows := upsert_rows (ID ws) (settings_row now tok j ws) (settings_update now j ws) (trows t)\<rparr>)"
proof -
  have n: "new_row [''id'', ''signup_token'', ''settings'', ''modified_by'', ''update_at'']
             [SStr (ID ws), SStr tok, SStr j, SStr (ModifiedBy ws), SInt now] = settings_row now tok j ws"
    by (simp add: new_row_5 settings_row_def)
  have i: "settings_row now tok j ws ''id'' = SStr (ID ws)"
    by (simp add: settings_row_def)
  from d show ?thesis
  proof
    assume my: "dbType s = mysqlDBType"
    show ?thesis
      using t k f m
      by (simp add: UpsertWorkspaceSettings_def UpsertWorkspaceSettings_query_def Exec_def
          exec_insert_def my parse_suffix_settings_mysql n i insert_row_upsert workspaces_table_def
          upsert_rows_def apply_conflict_settings_mysql del: apply_conflict.simps cong: if_cong)
  next
    assume p: "dbType s = postgresDBType"
    show ?thesis
      using t k f m mysql_not_postgres
      by (simp add: UpsertWorkspaceSettings_def UpsertWorkspaceSettings_query_def Exec_def
          exec_insert_def p parse_suffix_settings_postgres_flat n i insert_row_upsert workspaces_table_def
          upsert_rows_def apply_conflict_settings_postgres del: apply_conflict.simps cong: if_cong)
  qed
qed

lemma list_all_not_iff: "list_all (\<lambda>r. f r \<noteq> v) rs = (\<not> (\<exists>r \<in> set rs. f r = v))"
  by (simp add: list_all_iff)

lemma parse_suffix_not_mysql:
  "dbt \<noteq> mysqlDBType \<Longrightarrow> parse_suffix dbt txt = parse_suffix postgresDBType txt"
  using mysql_not_postgres by (simp add: parse_suffix_def split: option.splits list.splits)

lemma insert_row_frame:
  assumes "insert_row cl args n t = Inr t'" and "\<forall>r. apply_conflict cl args n r c = r c"
  shows "length (trows t) \<le> length (trows t') \<and>
         (\<forall>i < length (trows t). (trows t' ! i) c = (trows t ! i) c)"
  using assms
  by (auto simp: insert_row_def nth_append split: option.splits if_splits)

lemma Exec_frame:
  assumes p: "parse_suffix (dbType s) (ins_suffix q) = Some cl"
    and a: "\<forall>r. apply_conflict cl (ins_suffix_args q) (new_row (ins_columns q) (ins_values q)) r c = r c"
    and t: "tables w name = Some t"
  shows "\<exists>t'. tables (snd (Exec s q w)) name = Some t' \<and>
           length (trows t) \<le> length (trows t') \<and>
           (\<forall>i < length (trows t). (trows t' ! i) c = (trows t ! i) c)"
proof (cases "fst (Exec s q w) = None \<and> name = lower (ins_into q)")
  case False
  then have "tables (snd (Exec s q w)) name = tables w name"
    by (auto simp: Exec_def Let_def exec_insert_def p split: option.splits sum.splits if_splits)
  with t show ?thesis by simp
next
  case True
  then obtain t' where i: "insert_row cl (ins_suffix_args q) (new_row (ins_columns q) (ins_values q)) t = Inr t'"
    and r: "tables (snd (Exec s q w)) name = Some t'"
    using t by (auto simp: Exec_def Let_def exec_insert_def p split: option.splits sum.splits if_splits)
  from insert_row_frame [OF i a] r show ?thesis by simp
qed

lemma token_query_parse:
  "\<exists>cl. parse_suffix (dbType s) (ins_suffix (UpsertWorkspaceSignupToken_query s now ws)) = Some cl
      \<and> set (clause_columns cl) = {''signup_token'', ''modified_by'', ''update_at''}
      \<and> (\<forall>r. apply_conflict cl (ins_suffix_args (UpsertWorkspaceSignupToken_query s now ws))
                 (new_row (ins_columns (UpsertWorkspaceSignupToken_query s now ws))
                          (ins_values (UpsertWorkspaceSignupToken_query s now ws))) r
               = token_update now ws r)"
proof (cases "dbType s = mysqlDBType")
  case True
  then show ?thesis
    by (simp add: UpsertWorkspaceSignupToken_query_def parse_suffix_token_mysql token_update_def)
next
  case False
  then show ?thesis
    by (simp add: UpsertWorkspaceSignupToken_query_def parse_suffix_not_mysql
        parse_suffix_token_postgres_flat new_row_4 token_update_def)
qed

lemma settings_query_parse:
  "\<exists>cl. parse_suffix (dbType s) (ins_suffix (UpsertWorkspaceSettings_query s now tok j ws)) = Some cl
      \<and> set (clause_columns cl) = {''settings'', ''modified_by'', ''update_at''}"
proof (cases "dbType s = mysqlDBType")
  case True
  then show ?thesis
    by (simp add: UpsertWorkspaceSettings_query_def parse_suffix_settings_mysql)
next
  case False
  then show ?thesis
    by (simp add: UpsertWorkspaceSettings_query_def parse_suffix_not_mysql
        parse_suffix_settings_postgres_flat)
qed

lemma workspaces_table_samples:
  "workspaces_table mysql_store = ''focalboard_workspaces''"
  "workspaces_table postgres_store = ''focalboard_workspaces''"
  by code_simp+

subsection \<open>Claims about the upserts\<close>

text \<open>
  C2. \<open>UpsertWorkspaceSettings\<close> uses the fresh token only when it creates the row. Under
  MySQL and under PostgreSQL, when the settings encode and the connection is up: if a row
  with the identifier exists, the table afterwards is the old one with that row's
  \<open>settings\<close>, \<open>modified_by\<close> and \<open>update_at\<close> rewritten and the \<open>signup_token\<close> of every row as
  it was (the new table does not depend on the fresh token); if no such row exists, one row
  is added, and it carries the fresh token. The conflict clause of the statement does not
  assign \<open>signup_token\<close>, and neither its text nor its arguments change with the token.
\<close>

theorem UpsertWorkspaceSettings_token_only_on_insert:
  assumes d: "dbType s = mysqlDBType \<or> dbType s = postgresDBType"
    and t: "tables w (workspaces_table s) = Some t"
    and k: "pkey t = Some ''id''"
    and f: "fault w = None"
    and m: "Marshal js (Settings ws) = Inr settingsJSON"
  shows "fst (UpsertWorkspaceSettings js s now signupToken ws w) = None \<and>
         (\<exists>t'. tables (snd (UpsertWorkspaceSettings js s now signupToken ws w)) (workspaces_table s) = Some t' \<and>
            (if \<exists>r \<in> set (trows t). r ''id'' = SStr (ID ws)
             then trows t' =
                    map (\<lambda>r. if r ''id'' = SStr (ID ws)
                              then r(''settings'' := SStr settingsJSON,
                                     ''modified_by'' := SStr (ModifiedBy ws),
                                     ''update_at'' := SInt now)
                              else r) (trows t)
                  \<and> map (\<lambda>r. r ''signup_token'') (trows t') = map (\<lambda>r. r ''signup_token'') (trows t)
             else trows t' =
                    trows t @ [(\<lambda>_. SNull)(''id'' := SStr (ID ws),
                                            ''signup_token'' := SStr signupToken,
                                            ''settings'' := SStr settingsJSON,
                                            ''modified_by'' := SStr (ModifiedBy ws),
                                            ''update_at'' := SInt now)])) \<and>
         (\<exists>cl. parse_suffix (dbType s)
                  (ins_suffix (UpsertWorkspaceSettings_query s now signupToken settingsJSON ws)) = Some cl \<and>
                ''signup_token'' \<notin> set (clause_columns cl)) \<and>
         ins_suffix (UpsertWorkspaceSettings_query s now other settingsJSON ws) =
           ins_suffix (UpsertWorkspaceSettings_query s now signupToken settingsJSON ws) \<and>
         ins_suffix_args (UpsertWorkspaceSettings_query s now other settingsJSON ws) =
           ins_suffix_args (UpsertWorkspaceSettings_query s now signupToken settingsJSON ws)"
proof -
  have keep: "map (\<lambda>r. r ''signup_token'')
                (map (\<lambda>r. if r ''id'' = SStr (ID ws) then settings_update now settingsJSON ws r else r) rs)
              = map (\<lambda>r. r ''signup_token'') rs" for rs
    by (induction rs) (simp_all add: settings_update_def)
  have sem: "fst (UpsertWorkspaceSettings js s now signupToken ws w) = None \<and>
         (\<exists>t'. tables (snd (UpsertWorkspaceSettings js s now signupToken ws w)) (workspaces_table s) = Some t' \<and>
            (if \<exists>r \<in> set (trows t). r ''id'' = SStr (ID ws)
             then trows t' =
                    map (\<lambda>r. if r ''id'' = SStr (ID ws)
                              then r(''settings'' := SStr settingsJSON,
                                     ''modified_by'' := SStr (ModifiedBy ws),
                                     ''update_at'' := SInt now)
                              else r) (trows t)
                  \<and> map (\<lambda>r. r ''signup_token'') (trows t') = map (\<lambda>r. r ''signup_token'') (trows t)
             else trows t' =
                    trows t @ [(\<lambda>_. SNull)(''id'' := SStr (ID ws),
                                            ''signup_token'' := SStr signupToken,
                                            ''settings'' := SStr settingsJSON,
                                            ''modified_by'' := SStr (ModifiedBy ws),
                                            ''update_at'' := SInt now)]))"
    using UpsertWorkspaceSettings_effect [OF d t k f m, of now signupToken] keep [of "trows t"]
    by (simp add: upsert_rows_def list_all_not_iff settings_row_def settings_update_def)
  obtain cl where "parse_suffix (dbType s)
                  (ins_suffix (UpsertWorkspaceSettings_query s now signupToken settingsJSON ws)) = Some cl"
    and "set (clause_columns cl) = {''settings'', ''modified_by'', ''update_at''}"
    using settings_query_parse by blast
  then have syn: "\<exists>cl. parse_suffix (dbType s)
                  (ins_suffix (UpsertWorkspaceSettings_query s now signupToken settingsJSON ws)) = Some cl \<and>
                ''signup_token'' \<notin> set (clause_columns cl)"
    by auto
  have ind: "ins_suffix (UpsertWorkspaceSettings_query s now other settingsJSON ws) =
           ins_suffix (UpsertWorkspaceSettings_query s now signupToken settingsJSON ws) \<and>
         ins_suffix_args (UpsertWorkspaceSettings_query s now other settingsJSON ws) =
           ins_suffix_args (UpsertWorkspaceSettings_query s now signupToken settingsJSON ws)"
    by (simp add: UpsertWorkspaceSettings_query_def Let_def)
  from sem syn ind show ?thesis by blast
qed

theorem UpsertWorkspaceSettings_token_only_on_insert_witness:
  "(dbType postgres_store = mysqlDBType \<or> dbType postgres_store = postgresDBType) \<and>
   tables sample_world (workspaces_table postgres_store) = Some workspaces_sample \<and>
   pkey workspaces_sample = Some ''id'' \<and>
   fault sample_world = None \<and>
   Marshal sample_json (Settings team_first) = Inr ''{}'' \<and>
   (\<exists>r \<in> set (trows workspaces_sample). r ''id'' = SStr (ID team_first)) \<and>
   fst (UpsertWorkspaceSettings sample_json postgres_store 200 ''fresh'' team_first sample_world) = None \<and>
   (\<exists>t'. tables (snd (UpsertWorkspaceSettings sample_json postgres_store 200 ''fresh'' team_first sample_world))
            (workspaces_table postgres_store) = Some t' \<and>
          map (\<lambda>r. r ''signup_token'') (trows t') = [SStr ''tok-0''] \<and>
          map (\<lambda>r. r ''settings'') (trows t') = [SStr ''{}''])"
proof -
  have h1: "dbType postgres_store = mysqlDBType \<or> dbType postgres_store = postgresDBType"
    by (simp add: postgres_store_def postgresDBType_def)
  have h2: "tables sample_world (workspaces_table postgres_store) = Some workspaces_sample"
    by (simp add: workspaces_table_samples sample_world_def)
  have h3: "pkey workspaces_sample = Some ''id''"
    by (simp add: workspaces_sample_def)
  have h4: "fault sample_world = None"
    by (simp add: sample_world_def)
  have h5: "Marshal sample_json (Settings team_first) = Inr ''{}''"
    by (simp add: sample_json_def team_first_def)
  have h6: "\<exists>r \<in> set (trows workspaces_sample). r ''id'' = SStr (ID team_first)"
    by (simp add: workspaces_sample_def team_row_def mk_row_def team_first_def)
  have v: "map (\<lambda>r. r ''signup_token'') (trows workspaces_sample) = [SStr ''tok-0'']"
    by (simp add: workspaces_sample_def team_row_def mk_row_def)
  from UpsertWorkspaceSettings_token_only_on_insert [OF h1 h2 h3 h4 h5, of 200 "''fresh''" "''other''"] h6
  obtain t' where
    a: "fst (UpsertWorkspaceSettings sample_json postgres_store 200 ''fresh'' team_first sample_world) = None"
    and b: "tables (snd (UpsertWorkspaceSettings sample_json postgres_store 200 ''fresh'' team_first sample_world))
              (workspaces_table postgres_store) = Some t'"
    and c: "trows t' = map (\<lambda>r. if r ''id'' = SStr (ID team_first)
                              then r(''settings'' := SStr ''{}'',
                                     ''modified_by'' := SStr (ModifiedBy team_first),
                                     ''update_at'' := SInt 200)
                              else r) (trows workspaces_sample)"
    and e: "map (\<lambda>r. r ''signup_token'') (trows t') = map (\<lambda>r. r ''signup_token'') (trows workspaces_sample)"
    by auto
  have s: "map (\<lambda>r. r ''settings'') (trows t') = [SStr ''{}'']"
    unfolding c by (simp add: workspaces_sample_def team_row_def mk_row_def team_first_def)
  show ?thesis
    using h1 h2 h3 h4 h5 h6 a b e v s by simp
qed

text \<open>
  C3. Two calls of \<open>UpsertWorkspaceSignupToken\<close> for the same identifier, under MySQL and
  under PostgreSQL, on a table whose identifiers are unique and with the connection up:
  both succeed, and afterwards exactly one row has the identifier; it holds the token, the
  modifier and the time of the second call.
\<close>

theorem UpsertWorkspaceSignupToken_last_write_wins:
  assumes d: "dbType s = mysqlDBType \<or> dbType s = postgresDBType"
    and t: "tables w (workspaces_table s) = Some t"
    and k: "pkey t = Some ''id''"
    and u: "distinct (map (\<lambda>r. r ''id'') (trows t))"
    and f: "fault w = None"
    and same: "ID ws2 = ID ws1"
  shows "let (e1, w1) = UpsertWorkspaceSignupToken s now1 ws1 w;
             (e2, w2) = UpsertWorkspaceSignupToken s now2 ws2 w1
         in e1 = None \<and> e2 = None \<and>
            (\<exists>t2 r. tables w2 (workspaces_table s) = Some t2 \<and>
               filter (\<lambda>r. r ''id'' = SStr (ID ws1)) (trows t2) = [r] \<and>
               r ''signup_token'' = SStr (SignupToken ws2) \<and>
               r ''modified_by'' = SStr (ModifiedBy ws2) \<and>
               r ''update_at'' = SInt now2)"
proof -
  define w1 where "w1 = snd (UpsertWorkspaceSignupToken s now1 ws1 w)"
  define w2 where "w2 = snd (UpsertWorkspaceSignupToken s now2 ws2 w1)"
  define rows1 where "rows1 = upsert_rows (ID ws1) (token_row now1 ws1) (token_update now1 ws1) (trows t)"
  define t1 where "t1 = t\<lparr>trows := rows1\<rparr>"
  define rows2 where "rows2 = upsert_rows (ID ws2) (token_row now2 ws2) (token_update now2 ws2) rows1"
  have e1: "fst (UpsertWorkspaceSignupToken s now1 ws1 w) = None"
    by (rule UpsertWorkspaceSignupToken_effect(1) [OF d t k f])
  have tab1: "tables w1 (workspaces_table s) = Some t1"
    unfolding w1_def t1_def rows1_def
    by (simp add: UpsertWorkspaceSignupToken_effect(2) [OF d t k f])
  have f1: "fault w1 = None"
    unfolding w1_def by (rule UpsertWorkspaceSignupToken_effect(3) [OF d t k f])
  have k1: "pkey t1 = Some ''id''"
    using k by (simp add: t1_def)
  have e2: "fst (UpsertWorkspaceSignupToken s now2 ws2 w1) = None"
    by (rule UpsertWorkspaceSignupToken_effect(1) [OF d tab1 k1 f1])
  have tab2: "tables w2 (workspaces_table s) = Some (t1\<lparr>trows := rows2\<rparr>)"
    unfolding w2_def rows2_def
    by (simp add: UpsertWorkspaceSignupToken_effect(2) [OF d tab1 k1 f1] t1_def)
  obtain x where x: "filter (\<lambda>r. r ''id'' = SStr (ID ws1)) rows1 = [x]"
    using upsert_rows_single [of "trows t" "token_row now1 ws1" "ID ws1" "token_update now1 ws1"] u
    unfolding rows1_def by (auto simp: token_row_id token_update_id)
  have present: "\<not> list_all (\<lambda>r. r ''id'' \<noteq> SStr (ID ws1)) rows1"
    using filter_singleton_not_all [OF x] by simp
  have "filter (\<lambda>r. r ''id'' = SStr (ID ws2)) rows2 =
          (if list_all (\<lambda>r. r ''id'' \<noteq> SStr (ID ws2)) rows1 then [token_row now2 ws2]
           else map (token_update now2 ws2) (filter (\<lambda>r. r ''id'' = SStr (ID ws2)) rows1))"
    unfolding rows2_def
    by (rule filter_upsert_rows) (simp_all add: token_row_id token_update_id)
  then have r2: "filter (\<lambda>r. r ''id'' = SStr (ID ws1)) rows2 = [token_update now2 ws2 x]"
    using present x same by simp
  have vals: "token_update now2 ws2 x ''signup_token'' = SStr (SignupToken ws2)
      \<and> token_update now2 ws2 x ''modified_by'' = SStr (ModifiedBy ws2)
      \<and> token_update now2 ws2 x ''update_at'' = SInt now2"
    by (simp add: token_update_def)
  have "\<exists>t2 r. tables w2 (workspaces_table s) = Some t2 \<and>
               filter (\<lambda>r. r ''id'' = SStr (ID ws1)) (trows t2) = [r] \<and>
               r ''signup_token'' = SStr (SignupToken ws2) \<and>
               r ''modified_by'' = SStr (ModifiedBy ws2) \<and>
               r ''update_at'' = SInt now2"
    using tab2 r2 vals by simp
  then show ?thesis
    using e1 e2 by (simp add: split_def w1_def w2_def)
qed

theorem UpsertWorkspaceSignupToken_last_write_wins_witness:
  "(dbType mysql_store = mysqlDBType \<or> dbType mysql_store = postgresDBType) \<and>
   tables sample_world (workspaces_table mysql_store) = Some workspaces_sample \<and>
   pkey workspaces_sample = Some ''id'' \<and>
   distinct (map (\<lambda>r. r ''id'') (trows workspaces_sample)) \<and>
   fault sample_world = None \<and>
   ID team_second = ID team_first \<and>
   (let (e1, w1) = UpsertWorkspaceSignupToken mysql_store 200 team_first sample_world;
        (e2, w2) = UpsertWorkspaceSignupToken mysql_store 300 team_second w1
    in e1 = None \<and> e2 = None \<and>
       (\<exists>t2 r. tables w2 (workspaces_table mysql_store) = Some t2 \<and>
          filter (\<lambda>r. r ''id'' = SStr (ID team_first)) (trows t2) = [r] \<and>
          r ''signup_token'' = SStr (SignupToken team_second) \<and>
          r ''modified_by'' = SStr (ModifiedBy team_second) \<and>
          r ''update_at'' = SInt 300))"
proof -
  have h1: "dbType mysql_store = mysqlDBType \<or> dbType mysql_store = postgresDBType"
    by (simp add: mysql_store_def mysqlDBType_def)
  have h2: "tables sample_world (workspaces_table mysql_store) = Some workspaces_sample"
    by (simp add: workspaces_table_samples sample_world_def)
  have h3: "pkey workspaces_sample = Some ''id''"
    by (simp add: workspaces_sample_def)
  have h4: "distinct (map (\<lambda>r. r ''id'') (trows workspaces_sample))"
    by (simp add: workspaces_sample_def)
  have h5: "fault sample_world = None"
    by (simp add: sample_world_def)
  have h6: "ID team_second = ID team_first"
    by (simp add: team_second_def team_first_def)
  show ?thesis
    by (intro conjI h1 h2 h3 h4 h5 h6
        UpsertWorkspaceSignupToken_last_write_wins [OF h1 h2 h3 h4 h5 h6])
qed

text \<open>
  C7. When the settings cannot be encoded, \<open>UpsertWorkspaceSettings\<close> returns the encoder's
  error and the world is the one it started from: no statement was sent, no table changed.
\<close>

theorem UpsertWorkspaceSettings_marshal_error:
  assumes "Marshal js (Settings workspace) = Inl err"
  shows "UpsertWorkspaceSettings js s now signupToken workspace w = (Some err, w)"
  using assms by (simp add: UpsertWorkspaceSettings_def)

theorem UpsertWorkspaceSettings_marshal_error_witness:
  "Marshal sample_json (Settings team_unencodable) = Inl (JSONError ''json: unsupported type: chan int'') \<and>
   UpsertWorkspaceSettings sample_json mysql_store 200 ''fresh'' team_unencodable sample_world =
     (Some (JSONError ''json: unsupported type: chan int''), sample_world)"
proof -
  have h: "Marshal sample_json (Settings team_unencodable) = Inl (JSONError ''json: unsupported type: chan int'')"
    by (simp add: sample_json_def team_unencodable_def)
  show ?thesis
    by (intro conjI h UpsertWorkspaceSettings_marshal_error [OF h])
qed

text \<open>
  C10. \<open>UpsertWorkspaceSignupToken\<close> names the column \<open>settings\<close> neither in its column list
  nor in its conflict clause, and, whatever the dialect and whether or not the statement
  succeeds, every row that a table held before the call is still at its place afterwards
  with the same \<open>settings\<close> and the same \<open>id\<close>.
\<close>

theorem UpsertWorkspaceSignupToken_keeps_settings:
  assumes t: "tables w name = Some t"
  shows "''settings'' \<notin> lower ` set (ins_columns (UpsertWorkspaceSignupToken_query s now ws)) \<and>
         (\<exists>cl. parse_suffix (dbType s) (ins_suffix (UpsertWorkspaceSignupToken_query s now ws)) = Some cl \<and>
                ''settings'' \<notin> set (clause_columns cl)) \<and>
         (\<exists>t'. tables (snd (UpsertWorkspaceSignupToken s now ws w)) name = Some t' \<and>
                length (trows t) \<le> length (trows t') \<and>
                (\<forall>i < length (trows t).
                    (trows t' ! i) ''settings'' = (trows t ! i) ''settings'' \<and>
                    (trows t' ! i) ''id'' = (trows t ! i) ''id''))"
proof -
  obtain cl where p: "parse_suffix (dbType s) (ins_suffix (UpsertWorkspaceSignupToken_query s now ws)) = Some cl"
    and c: "set (clause_columns cl) = {''signup_token'', ''modified_by'', ''update_at''}"
    and a: "\<forall>r. apply_conflict cl (ins_suffix_args (UpsertWorkspaceSignupToken_query s now ws))
                 (new_row (ins_columns (UpsertWorkspaceSignupToken_query s now ws))
                          (ins_values (UpsertWorkspaceSignupToken_query s now ws))) r
               = token_update now ws r"
    using token_query_parse by blast
  have cols: "''settings'' \<notin> lower ` set (ins_columns (UpsertWorkspaceSignupToken_query s now ws))"
    by (simp add: UpsertWorkspaceSignupToken_query_def Let_def lower_columns)
  have a1: "\<forall>r. apply_conflict cl (ins_suffix_args (UpsertWorkspaceSignupToken_query s now ws))
                 (new_row (ins_columns (UpsertWorkspaceSignupToken_query s now ws))
                          (ins_values (UpsertWorkspaceSignupToken_query s now ws))) r ''settings''
               = r ''settings''"
    using a by (simp add: token_update_def)
  have a2: "\<forall>r. apply_conflict cl (ins_suffix_args (UpsertWorkspaceSignupToken_query s now ws))
                 (new_row (ins_columns (UpsertWorkspaceSignupToken_query s now ws))
                          (ins_values (UpsertWorkspaceSignupToken_query s now ws))) r ''id''
               = r ''id''"
    using a by (simp add: token_update_def)
  from Exec_frame [OF p a1 t] obtain t1 where
    t1: "tables (snd (UpsertWorkspaceSignupToken s now ws w)) name = Some t1"
      "length (trows t) \<le> length (trows t1)"
      "\<forall>i < length (trows t). (trows t1 ! i) ''settings'' = (trows t ! i) ''settings''"
    unfolding UpsertWorkspaceSignupToken_def by blast
  from Exec_frame [OF p a2 t] obtain t2 where
    t2: "tables (snd (UpsertWorkspaceSignupToken s now ws w)) name = Some t2"
      "\<forall>i < length (trows t). (trows t2 ! i) ''id'' = (trows t ! i) ''id''"
    unfolding UpsertWorkspaceSignupToken_def by blast
  from t1(1) t2(1) have "t2 = t1" by simp
  with t1 t2 cols p c show ?thesis by auto
qed

theorem UpsertWorkspaceSignupToken_keeps_settings_witness:
  "tables sample_world ''focalboard_workspaces'' = Some workspaces_sample \<and>
   (\<exists>t'. tables (snd (UpsertWorkspaceSignupToken mysql_store 200 team_first sample_world))
            ''focalboard_workspaces'' = Some t' \<and>
          length (trows workspaces_sample) \<le> length (trows t') \<and>
          (trows t' ! 0) ''settings'' = SNull \<and> (trows t' ! 0) ''id'' = SStr ''team'') \<and>
   tables configured_world ''focalboard_workspaces'' =
     Some \<lparr>pkey = Some ''id'', trows = [configured_row]\<rparr> \<and>
   (\<exists>t'. tables (snd (UpsertWorkspaceSignupToken postgres_store 200 team_first configured_world))
            ''focalboard_workspaces'' = Some t' \<and>
          (trows t' ! 0) ''settings'' = SStr ''{\"a\":1}'' \<and> (trows t' ! 0) ''id'' = SStr ''team'')"
proof -
  have h: "tables sample_world ''focalboard_workspaces'' = Some workspaces_sample"
    by (simp add: sample_world_def)
  have v: "(trows workspaces_sample ! 0) ''settings'' = SNull"
      "(trows workspaces_sample ! 0) ''id'' = SStr ''team''" "0 < length (trows workspaces_sample)"
    by (simp_all add: workspaces_sample_def team_row_def mk_row_def)
  from UpsertWorkspaceSignupToken_keeps_settings [OF h, of mysql_store 200 team_first]
  obtain t' where
    "tables (snd (UpsertWorkspaceSignupToken mysql_store 200 team_first sample_world))
       ''focalboard_workspaces'' = Some t'"
    "length (trows workspaces_sample) \<le> length (trows t')"
    "\<forall>i < length (trows workspaces_sample).
        (trows t' ! i) ''settings'' = (trows workspaces_sample ! i) ''settings'' \<and>
        (trows t' ! i) ''id'' = (trows workspaces_sample ! i) ''id''"
    by blast
  with v have first:
    "\<exists>t'. tables (snd (UpsertWorkspaceSignupToken mysql_store 200 team_first sample_world))
            ''focalboard_workspaces'' = Some t' \<and>
          length (trows workspaces_sample) \<le> length (trows t') \<and>
          (trows t' ! 0) ''settings'' = SNull \<and> (trows t' ! 0) ''id'' = SStr ''team''"
    by auto
  have g: "tables configured_world ''focalboard_workspaces'' =
             Some \<lparr>pkey = Some ''id'', trows = [configured_row]\<rparr>"
    by (simp add: configured_world_def)
  have u: "configured_row ''settings'' = SStr ''{\"a\":1}''" "configured_row ''id'' = SStr ''team''"
    by (simp_all add: configured_row_def mk_row_def)
  from UpsertWorkspaceSignupToken_keeps_settings [OF g, of postgres_store 200 team_first]
  obtain t'' where
    "tables (snd (UpsertWorkspaceSignupToken postgres_store 200 team_first configured_world))
       ''focalboard_workspaces'' = Some t''"
    "\<forall>i < length (trows \<lparr>pkey = Some ''id'', trows = [configured_row]\<rparr>).
        (trows t'' ! i) ''settings'' = (trows \<lparr>pkey = Some ''id'', trows = [configured_row]\<rparr> ! i) ''settings'' \<and>
        (trows t'' ! i) ''id'' = (trows \<lparr>pkey = Some ''id'', trows = [configured_row]\<rparr> ! i) ''id''"
    by blast
  with u have second:
    "\<exists>t'. tables (snd (UpsertWorkspaceSignupToken postgres_store 200 team_first configured_world))
            ''focalboard_workspaces'' = Some t' \<and>
          (trows t' ! 0) ''settings'' = SStr ''{\"a\":1}'' \<and> (trows t' ! 0) ''id'' = SStr ''team''"
    by auto
  show ?thesis
    by (intro conjI h first g second)
qed

subsection \<open>Claims about the reads\<close>

text \<open>
  What the engine answers to the select of \<open>GetWorkspace\<close>: the selected values of the rows
  with the identifier, of which \<open>QueryRow\<close> keeps the first.
\<close>

lemma GetWorkspace_exprs:
  "parse_sel_exprs [''id'', ''signup_token'', ''COALESCE(settings, '{}')'', ''modified_by'', ''update_at'']
     = Inr [SelCol ''id'', SelCol ''signup_token'', SelCoalesce ''settings'' ''{}'',
            SelCol ''modified_by'', SelCol ''update_at'']"
  by code_simp

lemma split_ref_columns:
  "split_ref ''id'' = (None, ''id'')" "split_ref ''signup_token'' = (None, ''signup_token'')"
  "split_ref ''settings'' = (None, ''settings'')" "split_ref ''modified_by'' = (None, ''modified_by'')"
  "split_ref ''update_at'' = (None, ''update_at'')"
  by code_simp+

lemma sql_eq_SStr: "sql_eq v (SStr x) = (v = SStr x)"
  by (cases v) auto

lemma exec_select_GetWorkspace:
  assumes "tables w (workspaces_table s) = Some t"
  shows "exec_select (GetWorkspace_query s ident) (tables w) =
           Inr (map workspace_columns (filter (\<lambda>r. r ''id'' = SStr ident) (trows t)))"
proof -
  have c: "parse_sel_exprs (sel_columns (GetWorkspace_query s ident)) =
             Inr [SelCol ''id'', SelCol ''signup_token'', SelCoalesce ''settings'' ''{}'',
                  SelCol ''modified_by'', SelCol ''update_at'']"
    by (simp add: GetWorkspace_query_def GetWorkspace_exprs del: parse_sel_exprs.simps)
  have q: "sel_from (GetWorkspace_query s ident) = tablePrefix s @ ''workspaces''"
      "sel_joins (GetWorkspace_query s ident) = []"
      "sel_where (GetWorkspace_query s ident) = [(''id'', SStr ident)]"
      "sel_group_by (GetWorkspace_query s ident) = []"
    by (simp_all add: GetWorkspace_query_def)
  show ?thesis
    using assms
    by (simp add: exec_select_def c q workspaces_table_def group_envs_def env_get_def
        split_ref_columns sql_eq_SStr filter_map comp_def workspace_columns_def)
qed

lemma QueryRow_GetWorkspace:
  assumes "tables w (workspaces_table s) = Some t" and "fault w = None"
  shows "fst (QueryRow s (GetWorkspace_query s ident) w) =
           (case find (\<lambda>r. r ''id'' = SStr ident) (trows t) of
              None \<Rightarrow> Inl ErrNoRows
            | Some r \<Rightarrow> Inr (workspace_columns r))"
proof -
  have f: "(case map g (filter P xs) of [] \<Rightarrow> a | r # _ \<Rightarrow> b r) =
             (case find P xs of None \<Rightarrow> a | Some r \<Rightarrow> b (g r))" for g P xs a b
    by (induction xs) auto
  show ?thesis
    using assms
    by (simp add: QueryRow_def Query_def exec_select_GetWorkspace f split: option.splits)
qed

text \<open>
  C5. When the first row with the identifier has a null \<open>settings\<close> column and its other
  columns scan, \<open>GetWorkspace\<close> returns what the decoder makes of the text \<open>{}\<close>, for every
  decoder: the decoder's error if it refuses \<open>{}\<close>, otherwise the workspace whose settings
  are the decoded value. So the null is replaced by \<open>{}\<close> and then decoded; with a decoder
  that reads \<open>{}\<close> as the empty object, the result is the workspace with empty settings and
  no error.
\<close>

theorem GetWorkspace_null_settings:
  assumes t: "tables w (workspaces_table s) = Some t"
    and f: "fault w = None"
    and r: "find (\<lambda>r. r ''id'' = SStr ident) (trows t) = Some r"
    and n: "r ''settings'' = SNull"
    and c2: "scan_string (r ''signup_token'') = Inr tok"
    and c4: "scan_string (r ''modified_by'') = Inr m"
    and c5: "scan_int (r ''update_at'') = Inr u"
  shows "fst (GetWorkspace js s ident w) =
           (case Unmarshal js ''{}'' of
              Inl e \<Rightarrow> (None, Some e)
            | Inr st \<Rightarrow>
                (Some \<lparr>ID = ident, SignupToken = tok, Settings = st, ModifiedBy = m, UpdateAt = u\<rparr>,
                 None)) \<and>
         (Unmarshal js ''{}'' = Inr Map.empty \<longrightarrow>
            fst (GetWorkspace js s ident w) =
              (Some \<lparr>ID = ident, SignupToken = tok, Settings = Map.empty, ModifiedBy = m, UpdateAt = u\<rparr>,
               None))"
proof -
  have i: "r ''id'' = SStr ident"
    using r by (auto simp: find_Some_iff)
  obtain w1 where q: "QueryRow s (GetWorkspace_query s ident) w = (Inr (workspace_columns r), w1)"
    using QueryRow_GetWorkspace [OF t f, of ident] r
    by (cases "QueryRow s (GetWorkspace_query s ident) w") simp
  have g: "fst (GetWorkspace js s ident w) =
           (case Unmarshal js ''{}'' of
              Inl e \<Rightarrow> (None, Some e)
            | Inr st \<Rightarrow>
                (Some \<lparr>ID = ident, SignupToken = tok, Settings = st, ModifiedBy = m, UpdateAt = u\<rparr>,
                 None))"
    by (simp add: GetWorkspace_def q workspace_columns_def i n c2 c4 c5 split: sum.splits)
  then show ?thesis
    by simp
qed

theorem GetWorkspace_null_settings_witness:
  "tables sample_world (workspaces_table mysql_store) = Some workspaces_sample \<and>
   fault sample_world = None \<and>
   find (\<lambda>r. r ''id'' = SStr ''team'') (trows workspaces_sample) = Some team_row \<and>
   team_row ''settings'' = SNull \<and>
   scan_string (team_row ''signup_token'') = Inr ''tok-0'' \<and>
   scan_string (team_row ''modified_by'') = Inr ''alice'' \<and>
   scan_int (team_row ''update_at'') = Inr 100 \<and>
   Unmarshal sample_json ''{}'' = Inr Map.empty \<and>
   fst (GetWorkspace sample_json mysql_store ''team'' sample_world) =
     (Some \<lparr>ID = ''team'', SignupToken = ''tok-0'', Settings = Map.empty, ModifiedBy = ''alice'',
             UpdateAt = 100\<rparr>, None) \<and>
   fst (GetWorkspace marking_json mysql_store ''team'' sample_world) =
     (Some \<lparr>ID = ''team'', SignupToken = ''tok-0'', Settings = [''decoded'' \<mapsto> ''yes''],
             ModifiedBy = ''alice'', UpdateAt = 100\<rparr>, None) \<and>
   fst (GetWorkspace refusing_json mysql_store ''team'' sample_world) =
     (None, Some (JSONError ''unexpected end of JSON input''))"
proof -
  have h1: "tables sample_world (workspaces_table mysql_store) = Some workspaces_sample"
    by (simp add: workspaces_table_samples sample_world_def)
  have h2: "fault sample_world = None"
    by (simp add: sample_world_def)
  have h3: "find (\<lambda>r. r ''id'' = SStr ''team'') (trows workspaces_sample) = Some team_row"
    by (simp add: workspaces_sample_def team_row_def mk_row_def)
  have h4: "team_row ''settings'' = SNull"
    by (simp add: team_row_def mk_row_def)
  have h5: "scan_string (team_row ''signup_token'') = Inr ''tok-0''"
    by (simp add: team_row_def mk_row_def)
  have h6: "scan_string (team_row ''modified_by'') = Inr ''alice''"
    by (simp add: team_row_def mk_row_def)
  have h7: "scan_int (team_row ''update_at'') = Inr 100"
    by (simp add: team_row_def mk_row_def in_int64_def)
  have h8: "Unmarshal sample_json ''{}'' = Inr Map.empty"
    by (simp add: sample_json_def)
  have a: "fst (GetWorkspace sample_json mysql_store ''team'' sample_world) =
     (Some \<lparr>ID = ''team'', SignupToken = ''tok-0'', Settings = Map.empty, ModifiedBy = ''alice'',
             UpdateAt = 100\<rparr>, None)"
    using GetWorkspace_null_settings [OF h1 h2 h3 h4 h5 h6 h7, of sample_json] h8 by simp
  have b: "fst (GetWorkspace marking_json mysql_store ''team'' sample_world) =
     (Some \<lparr>ID = ''team'', SignupToken = ''tok-0'', Settings = [''decoded'' \<mapsto> ''yes''],
             ModifiedBy = ''alice'', UpdateAt = 100\<rparr>, None)"
    using GetWorkspace_null_settings [OF h1 h2 h3 h4 h5 h6 h7, of marking_json]
    by (simp add: marking_json_def)
  have c: "fst (GetWorkspace refusing_json mysql_store ''team'' sample_world) =
     (None, Some (JSONError ''unexpected end of JSON input''))"
    using GetWorkspace_null_settings [OF h1 h2 h3 h4 h5 h6 h7, of refusing_json]
    by (simp add: refusing_json_def)
  show ?thesis
    by (intro conjI h1 h2 h3 h4 h5 h6 h7 h8 a b c)
qed

text \<open>
  C6. When the table holds no row with the identifier (and the connection is up),
  \<open>GetWorkspace\<close> returns no workspace and \<open>sql.ErrNoRows\<close>. In every world and for every
  identifier, a result with an error carries no workspace.
\<close>

theorem GetWorkspace_not_found:
  "(tables w (workspaces_table s) = Some t \<and> fault w = None \<and>
      (\<forall>r \<in> set (trows t). r ''id'' \<noteq> SStr ident)
    \<longrightarrow> fst (GetWorkspace js s ident w) = (None, Some ErrNoRows)) \<and>
   (snd (fst (GetWorkspace js s ident w)) \<noteq> None \<longrightarrow> fst (fst (GetWorkspace js s ident w)) = None)"
proof (intro conjI impI)
  assume a: "tables w (workspaces_table s) = Some t \<and> fault w = None \<and>
      (\<forall>r \<in> set (trows t). r ''id'' \<noteq> SStr ident)"
  then have "find (\<lambda>r. r ''id'' = SStr ident) (trows t) = None"
    by (simp add: find_None_iff)
  with a have "fst (QueryRow s (GetWorkspace_query s ident) w) = Inl ErrNoRows"
    using QueryRow_GetWorkspace [of w s t ident] by simp
  then show "fst (GetWorkspace js s ident w) = (None, Some ErrNoRows)"
    by (cases "QueryRow s (GetWorkspace_query s ident) w") (simp add: GetWorkspace_def)
next
  assume "snd (fst (GetWorkspace js s ident w)) \<noteq> None"
  then show "fst (fst (GetWorkspace js s ident w)) = None"
    by (auto simp: GetWorkspace_def split: prod.splits sum.splits list.splits)
qed

theorem GetWorkspace_not_found_witness:
  "tables sample_world (workspaces_table mysql_store) = Some workspaces_sample \<and>
   fault sample_world = None \<and>
   list_all (\<lambda>r. r ''id'' \<noteq> SStr ''nobody'') (trows workspaces_sample) \<and>
   fst (GetWorkspace sample_json mysql_store ''nobody'' sample_world) = (None, Some ErrNoRows) \<and>
   snd (fst (GetWorkspace sample_json mysql_store ''nobody'' sample_world)) \<noteq> None \<and>
   fst (fst (GetWorkspace sample_json mysql_store ''nobody'' sample_world)) = None"
proof -
  have h1: "tables sample_world (workspaces_table mysql_store) = Some workspaces_sample"
    by (simp add: workspaces_table_samples sample_world_def)
  have h2: "fault sample_world = None"
    by (simp add: sample_world_def)
  have h3: "\<forall>r \<in> set (trows workspaces_sample). r ''id'' \<noteq> SStr ''nobody''"
    by (simp add: workspaces_sample_def team_row_def mk_row_def)
  have r: "fst (GetWorkspace sample_json mysql_store ''nobody'' sample_world) = (None, Some ErrNoRows)"
    using GetWorkspace_not_found [of sample_world mysql_store workspaces_sample "''nobody''" sample_json]
      h1 h2 h3 by blast
  show ?thesis
    using h1 h2 h3 r by (simp add: list_all_iff)
qed

lemma userWorkspacesFromRows_loop_ok:
  "map scanUserWorkspace rows = map Inr us \<Longrightarrow>
   userWorkspacesFromRows_loop acc rows w = ((Some (acc @ us), None), w)"
proof (induction rows arbitrary: acc us)
  case Nil
  then show ?case by simp
next
  case (Cons r rows)
  then obtain u us' where us: "us = u # us'" and u: "scanUserWorkspace r = Inr u"
    and rest: "map scanUserWorkspace rows = map Inr us'"
    by (cases us) auto
  from Cons.IH [OF rest, of "acc @ [u]"] u us show ?case by simp
qed

lemma userWorkspacesFromRows_loop_fail:
  "map scanUserWorkspace pre = map Inr us \<Longrightarrow> scanUserWorkspace r = Inl err \<Longrightarrow>
   userWorkspacesFromRows_loop acc (pre @ r # post) w =
     ((None, Some err), log_error ''ERROR userWorkspacesFromRows'' err w)"
proof (induction pre arbitrary: acc us)
  case Nil
  then show ?case by simp
next
  case (Cons p pre)
  then obtain u us' where u: "scanUserWorkspace p = Inr u"
    and rest: "map scanUserWorkspace pre = map Inr us'"
    by (cases us) auto
  from Cons.IH [OF rest Cons.prems(2), of "acc @ [u]"] u show ?case by simp
qed

lemma scanUserWorkspace_length:
  "length r \<noteq> 3 \<Longrightarrow> scanUserWorkspace r = Inl (ScanError ''sql: expected 3 destination arguments in Scan'')"
  by (auto simp: scanUserWorkspace_def split: list.splits)

lemma GetUserWorkspaces_postgres_rows:
  "exec_select (GetUserWorkspaces_query postgres_filter ''u1'')
     (tables boards_world_postgres) =
     Inr [[SStr ''C'', SStr ''Town Square'', SInt 2], [SStr ''D'', SStr ''Off-Topic'', SInt 0]]"
  by code_simp

text \<open>
  C8. \<open>userWorkspacesFromRows\<close> reads a row into (identifier, title, count) from its first,
  second and third value, and a row that has not exactly three values does not scan. When
  every row scans, the result is the list of the records, in order; when a row fails after
  any number of good rows, the result is no list and that row's error, which is logged.
  \<open>GetUserWorkspaces\<close> returns what \<open>userWorkspacesFromRows\<close> makes of the rows of its
  query.
\<close>

theorem userWorkspacesFromRows_all_or_nothing:
  "(length r \<noteq> 3 \<longrightarrow> (\<exists>e. scanUserWorkspace r = Inl e)) \<and>
   (scan_string c1 = Inr i \<and> scan_string c2 = Inr t \<and> scan_int c3 = Inr n \<longrightarrow>
      scanUserWorkspace [c1, c2, c3] = Inr \<lparr>UserWorkspace_ID = i, Title = t, BoardCount = n\<rparr>) \<and>
   (map scanUserWorkspace rows = map Inr us \<longrightarrow>
      userWorkspacesFromRows s rows w = ((Some us, None), w)) \<and>
   (map scanUserWorkspace pre = map Inr us \<and> scanUserWorkspace bad = Inl err \<longrightarrow>
      userWorkspacesFromRows s (pre @ bad # post) w =
        ((None, Some err), log_error ''ERROR userWorkspacesFromRows'' err w)) \<and>
   (nonTemplateFilter (dbType s) = Some f \<and>
    Query s (GetUserWorkspaces_query f userID) w = (Inr result, w1) \<longrightarrow>
      fst (GetUserWorkspaces s userID w) = fst (userWorkspacesFromRows s result w1))"
proof -
  have a: "length r \<noteq> 3 \<longrightarrow> (\<exists>e. scanUserWorkspace r = Inl e)"
    by (simp add: scanUserWorkspace_length)
  have b: "scan_string c1 = Inr i \<and> scan_string c2 = Inr t \<and> scan_int c3 = Inr n \<longrightarrow>
      scanUserWorkspace [c1, c2, c3] = Inr \<lparr>UserWorkspace_ID = i, Title = t, BoardCount = n\<rparr>"
    by (simp add: scanUserWorkspace_def)
  have c: "map scanUserWorkspace rows = map Inr us \<longrightarrow>
      userWorkspacesFromRows s rows w = ((Some us, None), w)"
    using userWorkspacesFromRows_loop_ok [of rows us "[]" w]
    by (simp add: userWorkspacesFromRows_def)
  have d: "map scanUserWorkspace pre = map Inr us \<and> scanUserWorkspace bad = Inl err \<longrightarrow>
      userWorkspacesFromRows s (pre @ bad # post) w =
        ((None, Some err), log_error ''ERROR userWorkspacesFromRows'' err w)"
    using userWorkspacesFromRows_loop_fail [of pre us bad err "[]" post w]
    by (simp add: userWorkspacesFromRows_def)
  have e: "nonTemplateFilter (dbType s) = Some f \<and>
    Query s (GetUserWorkspaces_query f userID) w = (Inr result, w1) \<longrightarrow>
      fst (GetUserWorkspaces s userID w) = fst (userWorkspacesFromRows s result w1)"
    by (simp add: GetUserWorkspaces_def split: prod.splits)
  from a b c d e show ?thesis by blast
qed

theorem userWorkspacesFromRows_all_or_nothing_witness:
  "length [SStr ''C''] \<noteq> 3 \<and> (\<exists>e. scanUserWorkspace [SStr ''C''] = Inl e) \<and>
   scan_string (SStr ''C'') = Inr ''C'' \<and> scan_string (SStr ''Town Square'') = Inr ''Town Square'' \<and>
   scan_int (SInt 2) = Inr 2 \<and>
   map scanUserWorkspace [good_result_row] =
     map Inr [\<lparr>UserWorkspace_ID = ''C'', Title = ''Town Square'', BoardCount = 2\<rparr>] \<and>
   userWorkspacesFromRows postgres_store [good_result_row] boards_world_postgres =
     ((Some [\<lparr>UserWorkspace_ID = ''C'', Title = ''Town Square'', BoardCount = 2\<rparr>], None),
      boards_world_postgres) \<and>
   scanUserWorkspace bad_result_row = Inl (ScanError ''converting NULL to string is unsupported'') \<and>
   userWorkspacesFromRows postgres_store ([good_result_row] @ bad_result_row # [good_result_row])
       boards_world_postgres =
     ((None, Some (ScanError ''converting NULL to string is unsupported'')),
      log_error ''ERROR userWorkspacesFromRows''
        (ScanError ''converting NULL to string is unsupported'') boards_world_postgres) \<and>
   nonTemplateFilter (dbType postgres_store) =
     Some postgres_filter \<and>
   fst (Query postgres_store
          (GetUserWorkspaces_query postgres_filter ''u1'')
          boards_world_postgres) =
     Inr [[SStr ''C'', SStr ''Town Square'', SInt 2], [SStr ''D'', SStr ''Off-Topic'', SInt 0]] \<and>
   fst (GetUserWorkspaces postgres_store ''u1'' boards_world_postgres) =
     fst (userWorkspacesFromRows postgres_store
            [[SStr ''C'', SStr ''Town Square'', SInt 2], [SStr ''D'', SStr ''Off-Topic'', SInt 0]]
            (snd (Query postgres_store
                    (GetUserWorkspaces_query postgres_filter ''u1'')
                    boards_world_postgres)))"
proof -
  have h1: "length [SStr ''C''] \<noteq> 3"
    by simp
  have h2: "scan_string (SStr ''C'') = Inr ''C'' \<and> scan_string (SStr ''Town Square'') = Inr ''Town Square'' \<and>
            scan_int (SInt 2) = Inr 2"
    by (simp add: in_int64_def)
  have h3: "map scanUserWorkspace [good_result_row] =
              map Inr [\<lparr>UserWorkspace_ID = ''C'', Title = ''Town Square'', BoardCount = 2\<rparr>]"
    by (simp add: scanUserWorkspace_def good_result_row_def in_int64_def)
  have h4: "scanUserWorkspace bad_result_row = Inl (ScanError ''converting NULL to string is unsupported'')"
    by (simp add: scanUserWorkspace_def bad_result_row_def)
  have h5: "nonTemplateFilter (dbType postgres_store) =
              Some postgres_filter"
    by (simp add: nonTemplateFilter_def postgres_store_def postgresDBType_def mysqlDBType_def
        postgres_filter_def)
  have h6: "fst (Query postgres_store
              (GetUserWorkspaces_query postgres_filter ''u1'')
              boards_world_postgres) =
            Inr [[SStr ''C'', SStr ''Town Square'', SInt 2], [SStr ''D'', SStr ''Off-Topic'', SInt 0]]"
    using GetUserWorkspaces_postgres_rows
    by (simp add: Query_def boards_world_postgres_def)
  have h7: "Query postgres_store
              (GetUserWorkspaces_query postgres_filter ''u1'')
              boards_world_postgres =
            (Inr [[SStr ''C'', SStr ''Town Square'', SInt 2], [SStr ''D'', SStr ''Off-Topic'', SInt 0]],
             snd (Query postgres_store
                    (GetUserWorkspaces_query postgres_filter ''u1'')
                    boards_world_postgres))"
    using h6 by (simp add: prod_eq_iff)
  note t = userWorkspacesFromRows_all_or_nothing
    [of "[SStr ''C'']" "SStr ''C''" "''C''" "SStr ''Town Square''" "''Town Square''" "SInt 2" 2
        "[good_result_row]" "[\<lparr>UserWorkspace_ID = ''C'', Title = ''Town Square'', BoardCount = 2\<rparr>]"
        postgres_store boards_world_postgres "[good_result_row]" bad_result_row
        "ScanError ''converting NULL to string is unsupported''" "[good_result_row]"
        postgres_filter "''u1''"
        "[[SStr ''C'', SStr ''Town Square'', SInt 2], [SStr ''D'', SStr ''Off-Topic'', SInt 0]]"
        "snd (Query postgres_store
                (GetUserWorkspaces_query postgres_filter ''u1'')
                boards_world_postgres)"]
  show ?thesis
    using t h1 h2 h3 h4 h5 h6 h7 by blast
qed

text \<open>
  C4. With a dialect discriminator that is neither MySQL's nor PostgreSQL's,
  \<open>GetUserWorkspaces\<close> returns no list and the wrapped unsupported-database error, and the
  world is the one it started from: no statement was sent, no row set opened, no table
  changed.
\<close>

theorem GetUserWorkspaces_unsupported_dialect:
  assumes "dbType s \<noteq> mysqlDBType" and "dbType s \<noteq> postgresDBType"
  shows "GetUserWorkspaces s userID w =
           ((None, Some (Wrapped ''GetUserWorkspaces - '' errUnsupportedDatabaseError)), w)"
  using assms by (simp add: GetUserWorkspaces_def nonTemplateFilter_def)

theorem GetUserWorkspaces_unsupported_dialect_witness:
  "dbType sqlite_store \<noteq> mysqlDBType \<and> dbType sqlite_store \<noteq> postgresDBType \<and>
   GetUserWorkspaces sqlite_store ''u1'' sample_world =
     ((None, Some (Wrapped ''GetUserWorkspaces - '' errUnsupportedDatabaseError)), sample_world)"
proof -
  have a: "dbType sqlite_store \<noteq> mysqlDBType"
    by (simp add: sqlite_store_def mysqlDBType_def)
  have b: "dbType sqlite_store \<noteq> postgresDBType"
    by (simp add: sqlite_store_def postgresDBType_def)
  show ?thesis
    by (intro conjI a b GetUserWorkspaces_unsupported_dialect [OF a b])
qed

text \<open>
  C9. \<open>HasWorkspaceAccess\<close> answers true with no error for every user and workspace, in
  every world, and leaves the world as it was.
\<close>

theorem HasWorkspaceAccess_always_true:
  "HasWorkspaceAccess s userID workspaceID w = ((True, None), w)"
  by (simp add: HasWorkspaceAccess_def)

text \<open>
  The join texts of \<open>GetUserWorkspaces\<close>. Under MySQL the pattern after \<open>LIKE\<close> is not a
  string literal (it is not between quotes), and the engine does not read the join; with
  the pattern between quotes it would, and the sample database would give the counts.
\<close>

lemma mysql_join_rejected: "parse_join mysql_left_join = None"
  by code_simp

lemma GetUserWorkspaces_exprs:
  "parse_sel_exprs (sel_columns (GetUserWorkspaces_query f u)) =
     Inr [SelCol ''Channels.ID'', SelCol ''Channels.DisplayName'', SelCount ''focalboard_blocks.id'']"
proof -
  have "parse_sel_exprs [''Channels.ID'', ''Channels.DisplayName'', ''COUNT(focalboard_blocks.id)''] =
          Inr [SelCol ''Channels.ID'', SelCol ''Channels.DisplayName'', SelCount ''focalboard_blocks.id'']"
    by code_simp
  then show ?thesis
    by (simp add: GetUserWorkspaces_query_def del: parse_sel_exprs.simps)
qed

lemma GetUserWorkspaces_mysql_always_fails:
  assumes "dbType s = mysqlDBType"
  shows "fst (fst (GetUserWorkspaces s userID w)) = None \<and>
         snd (fst (GetUserWorkspaces s userID w)) =
           Some (case fault w of None \<Rightarrow> SyntaxError mysql_left_join | Some e \<Rightarrow> e)"
proof -
  have j: "parse_joins (sel_joins (GetUserWorkspaces_query
              ''focalboard_blocks.fields LIKE %\"isTemplate\":false%'' userID)) =
            Inl (SyntaxError mysql_left_join)"
    using mysql_join_rejected
    by (simp add: GetUserWorkspaces_query_def mysql_left_join_def)
  show ?thesis
    using assms
    by (simp add: GetUserWorkspaces_def nonTemplateFilter_def Query_def exec_select_def
        GetUserWorkspaces_exprs j split: option.splits)
qed

lemma GetUserWorkspaces_quoted_mysql_sample:
  "exec_select (GetUserWorkspaces_query quoted_mysql_filter ''u1'') (tables boards_world_mysql) =
     Inr [[SStr ''C'', SStr ''Town Square'', SInt 2], [SStr ''D'', SStr ''Off-Topic'', SInt 0]]"
  by code_simp

lemma GetUserWorkspaces_postgres_sample:
  "fst (GetUserWorkspaces postgres_store ''u1'' boards_world_postgres) =
     (Some [\<lparr>UserWorkspace_ID = ''C'', Title = ''Town Square'', BoardCount = 2\<rparr>,
            \<lparr>UserWorkspace_ID = ''D'', Title = ''Off-Topic'', BoardCount = 0\<rparr>], None)"
  by code_simp

text \<open>
  C1. The claim expects, under both dialects, one row per channel of the user with the
  number of boards that are not templates: count 2 for \<open>C\<close> and count 0 for \<open>D\<close> on the
  sample database. Under PostgreSQL that is what \<open>GetUserWorkspaces\<close> returns
  (\<open>GetUserWorkspaces_postgres_sample\<close>). Under MySQL it returns no list and the syntax
  error of the left join, on the sample database as on every other
  (\<open>GetUserWorkspaces_mysql_always_fails\<close>).
\<close>

theorem GetUserWorkspaces_mysql_sample:
  "fst (GetUserWorkspaces mysql_store ''u1'' boards_world_mysql) =
     (None, Some (SyntaxError mysql_left_join))"
  by code_simp

end
